theory Spec2Isabelle
  imports Complex_Main
begin

section \<open>Numbers and values of the script\<close>

text \<open>
  The script computes with JavaScript numbers. They are modelled as rationals, together
  with the one non-finite value the script itself can produce from finite inputs:
  \<open>NaN\<close>, which arises when a number is multiplied by a missing table entry
  (\<open>jumps[o.effect]\<close> for an effect that is not a key of the table). Arithmetic
  propagates \<open>NaN\<close>; every comparison with \<open>NaN\<close> is false. Rounding of
  doubles and the infinities are outside the model; division by zero, which the modelled
  functions perform only when a host-supplied divisor is zero, yields \<open>NaN\<close>.
\<close>

datatype number = Num rat | NaN

instantiation number :: "{plus, minus, uminus, times, inverse, ord}"
begin

fun plus_number :: "number \<Rightarrow> number \<Rightarrow> number" where
  "plus_number (Num a) (Num b) = Num (a + b)"
| "plus_number _ _ = NaN"

fun minus_number :: "number \<Rightarrow> number \<Rightarrow> number" where
  "minus_number (Num a) (Num b) = Num (a - b)"
| "minus_number _ _ = NaN"

fun uminus_number :: "number \<Rightarrow> number" where
  "uminus_number (Num a) = Num (- a)"
| "uminus_number NaN = NaN"

fun times_number :: "number \<Rightarrow> number \<Rightarrow> number" where
  "times_number (Num a) (Num b) = Num (a * b)"
| "times_number _ _ = NaN"

fun divide_number :: "number \<Rightarrow> number \<Rightarrow> number" where
  "divide_number (Num a) (Num b) = (if b = 0 then NaN else Num (a / b))"
| "divide_number _ _ = NaN"

fun inverse_number :: "number \<Rightarrow> number" where
  "inverse_number (Num a) = (if a = 0 then NaN else Num (inverse a))"
| "inverse_number NaN = NaN"

fun less_number :: "number \<Rightarrow> number \<Rightarrow> bool" where
  "less_number (Num a) (Num b) = (a < b)"
| "less_number _ _ = False"

fun less_eq_number :: "number \<Rightarrow> number \<Rightarrow> bool" where
  "less_eq_number (Num a) (Num b) = (a \<le> b)"
| "less_eq_number _ _ = False"

instance ..

end

text \<open>\<open>a === b\<close> on numbers: \<open>NaN\<close> is not equal to itself.\<close>

fun strict_eq :: "number \<Rightarrow> number \<Rightarrow> bool" where
  "strict_eq (Num a) (Num b) = (a = b)"
| "strict_eq _ _ = False"

text \<open>\<open>Math.max\<close> and \<open>Math.min\<close> of two numbers: \<open>NaN\<close> if either is.\<close>

fun Math_max :: "number \<Rightarrow> number \<Rightarrow> number" where
  "Math_max (Num a) (Num b) = Num (max a b)"
| "Math_max _ _ = NaN"

fun Math_min :: "number \<Rightarrow> number \<Rightarrow> number" where
  "Math_min (Num a) (Num b) = Num (min a b)"
| "Math_min _ _ = NaN"

text \<open>
  A property that may hold a number, a string or nothing (a portal's \<open>value\<close>, the
  player's \<open>mode\<close>).
\<close>

datatype jsval = Undefined | Number number | String string

text \<open>
  Use of a value as a factor (\<open>baseSpeed * game.speedMult\<close>): a missing value and a
  string that is not a numeral are \<open>NaN\<close>. Strings that spell a number are outside
  the model.
\<close>

fun ToNumber :: "jsval \<Rightarrow> number" where
  "ToNumber (Number n) = n"
| "ToNumber _ = NaN"

section \<open>Rectangles and level objects\<close>

text \<open>
  Every rectangle of the script (\<open>{x, y, w, h}\<close>) is a record with the fields
  \<open>rx\<close>, \<open>ry\<close>, \<open>rw\<close>, \<open>rh\<close>. A level object is a rectangle with further
  properties, so it extends the record, and \<open>intersects\<close> and \<open>collide\<close> accept
  both, as they do in the script. Properties an object literal may leave out are options
  (\<open>None\<close> is \<open>undefined\<close>); a numeric payload that is left out is \<open>NaN\<close>,
  which is what every use of it in the script (\<open>+=\<close>, assignment to a coordinate)
  turns it into. The field \<open>otype\<close> is the script's \<open>type\<close>, \<open>ovalue\<close> its
  \<open>value\<close>, \<open>ocolor\<close>, \<open>oalpha\<close>, \<open>orot\<close>, \<open>oid\<close> its \<open>color\<close>,
  \<open>alpha\<close>, \<open>rot\<close>, \<open>id\<close>.
\<close>

record rect =
  rx :: number
  ry :: number
  rw :: number
  rh :: number

record obj = rect +
  otype :: string
  group :: "int option"
  effect :: "string option"
  ovalue :: jsval
  targetGroup :: "int option"
  dx :: number
  dy :: number
  ocolor :: "int option"
  oalpha :: "number option"
  targetX :: number
  targetY :: number
  oid :: "int option"
  orot :: number
  used :: bool

text \<open>
  Objects are shared by reference between \<open>level.objects\<close>, the nodes of the
  quadtree and the arrays a query returns, and they are mutated through each of them.
  The model keeps all objects ever created in a heap, a list addressed by position, and
  the level, the tree and the query results hold addresses.
\<close>

type_synonym addr = nat
type_synonym heap = "obj list"

section \<open>QuadTree\<close>

definition intersects :: "('a rect_scheme) \<Rightarrow> ('b rect_scheme) \<Rightarrow> bool" where
  "intersects a b \<longleftrightarrow>
     rx a < rx b + rw b \<and> rx a + rw a > rx b \<and> ry a < ry b + rh b \<and> ry a + rh a > ry b"

text \<open>
  A node that is not divided is a \<open>Leaf\<close>, a divided one a \<open>Node\<close> with its children
  \<open>nw\<close>, \<open>ne\<close>, \<open>sw\<close>, \<open>se\<close>; both carry \<open>bounds\<close>, \<open>capacity\<close> and
  \<open>objects\<close>.
\<close>

datatype QuadTree =
    Leaf rect nat "addr list"
  | Node rect nat "addr list" QuadTree QuadTree QuadTree QuadTree

fun bounds :: "QuadTree \<Rightarrow> rect" where
  "bounds (Leaf b c os) = b"
| "bounds (Node b c os nw ne sw se) = b"

fun capacity :: "QuadTree \<Rightarrow> nat" where
  "capacity (Leaf b c os) = c"
| "capacity (Node b c os nw ne sw se) = c"

fun objects :: "QuadTree \<Rightarrow> addr list" where
  "objects (Leaf b c os) = os"
| "objects (Node b c os nw ne sw se) = os"

fun divided :: "QuadTree \<Rightarrow> bool" where
  "divided (Leaf b c os) = False"
| "divided (Node b c os nw ne sw se) = True"

text \<open>\<open>new QuadTree(bounds)\<close>, with the default capacity 4.\<close>

definition new_QuadTree :: "rect \<Rightarrow> QuadTree" where
  "new_QuadTree b = Leaf b 4 []"

definition subdivide :: "rect \<Rightarrow> nat \<Rightarrow> addr list \<Rightarrow> QuadTree" where
  "subdivide b c os =
     (let x = rx b; y = ry b; w = rw b; h = rh b in
      Node b c os
        (new_QuadTree \<lparr>rx = x, ry = y, rw = w / Num 2, rh = h / Num 2\<rparr>)
        (new_QuadTree \<lparr>rx = x + w / Num 2, ry = y, rw = w / Num 2, rh = h / Num 2\<rparr>)
        (new_QuadTree \<lparr>rx = x, ry = y + h / Num 2, rw = w / Num 2, rh = h / Num 2\<rparr>)
        (new_QuadTree \<lparr>rx = x + w / Num 2, ry = y + h / Num 2, rw = w / Num 2, rh = h / Num 2\<rparr>))"

text \<open>
  \<open>insert\<close> returns the script's boolean and the node after the call. A full leaf is
  subdivided and the call goes on as it does on a divided node. The children are tried in
  the order \<open>nw\<close>, \<open>ne\<close>, \<open>sw\<close>, \<open>se\<close>, and \<open>some\<close> stops at the first child
  that returns true; a child that returns false may still have been subdivided by the call.
\<close>

fun weight :: "QuadTree \<Rightarrow> nat" where
  "weight (Leaf b c os) = (if length os < c then 0 else 2)"
| "weight (Node b c os nw ne sw se) = 1 + weight nw + weight ne + weight sw + weight se"

function insert :: "heap \<Rightarrow> addr \<Rightarrow> QuadTree \<Rightarrow> bool \<times> QuadTree" where
  "insert hp a (Leaf b c os) =
     (if \<not> intersects b (hp ! a) then (False, Leaf b c os)
      else if length os < c then (True, Leaf b c (os @ [a]))
      else insert hp a (subdivide b c os))"
| "insert hp a (Node b c os nw ne sw se) =
     (if \<not> intersects b (hp ! a) then (False, Node b c os nw ne sw se)
      else
        let (r1, nw') = insert hp a nw in
        if r1 then (True, Node b c os nw' ne sw se)
        else
          let (r2, ne') = insert hp a ne in
          if r2 then (True, Node b c os nw' ne' sw se)
          else
            let (r3, sw') = insert hp a sw in
            if r3 then (True, Node b c os nw' ne' sw' se)
            else
              let (r4, se') = insert hp a se in
              (r4, Node b c os nw' ne' sw' se'))"
  by pat_completeness auto
termination
  by (relation "measure (\<lambda>(hp, a, t). weight t)")
     (auto simp: subdivide_def new_QuadTree_def Let_def)

text \<open>
  \<open>query(range, found)\<close> appends to \<open>found\<close> the objects of the node that intersect
  the range, then visits the children in order.
\<close>

fun query :: "heap \<Rightarrow> ('a rect_scheme) \<Rightarrow> QuadTree \<Rightarrow> addr list \<Rightarrow> addr list" where
  "query hp rng (Leaf b c os) found =
     (if \<not> intersects b rng then found
      else found @ filter (\<lambda>a. intersects rng (hp ! a)) os)"
| "query hp rng (Node b c os nw ne sw se) found =
     (if \<not> intersects b rng then found
      else
        let found1 = found @ filter (\<lambda>a. intersects rng (hp ! a)) os;
            found2 = query hp rng nw found1;
            found3 = query hp rng ne found2;
            found4 = query hp rng sw found3
        in query hp rng se found4)"

text \<open>
  \<open>objects.forEach(o => quadTree.insert(o))\<close>: the objects are inserted in order and
  the booleans are dropped.
\<close>

definition insert_all :: "heap \<Rightarrow> addr list \<Rightarrow> QuadTree \<Rightarrow> QuadTree" where
  "insert_all hp as t = foldl (\<lambda>q a. snd (insert hp a q)) t as"

text \<open>
  An object literal \<open>{x, y, w, h, type}\<close>: every other property is absent and the
  one-shot flag is not set.
\<close>

definition new_obj :: "rat \<Rightarrow> rat \<Rightarrow> rat \<Rightarrow> rat \<Rightarrow> string \<Rightarrow> obj" where
  "new_obj x y w h t =
     \<lparr>rx = Num x, ry = Num y, rw = Num w, rh = Num h, otype = t, group = None,
      effect = None, ovalue = Undefined, targetGroup = None, dx = NaN, dy = NaN,
      ocolor = None, oalpha = None, targetX = NaN, targetY = NaN, oid = None,
      orot = NaN, used = False\<rparr>"

definition new_rect :: "rat \<Rightarrow> rat \<Rightarrow> rat \<Rightarrow> rat \<Rightarrow> rect" where
  "new_rect x y w h = \<lparr>rx = Num x, ry = Num y, rw = Num w, rh = Num h\<rparr>"

section \<open>Host functions\<close>

text \<open>
  The script calls \<open>Math.random\<close>, \<open>Math.atan2\<close> and \<open>Math.PI\<close>. They are
  parameters of the model: \<open>Math_random h n\<close> is the number returned by the \<open>n\<close>-th
  call of \<open>Math.random()\<close> (a number in \<open>[0, 1)\<close>), and the game state counts the
  calls made so far. Rendering, audio, the document and local storage are not modelled;
  the statements of the script that only talk to them are left out of the functions below.
\<close>

record host =
  Math_random :: "nat \<Rightarrow> rat"
  Math_atan2 :: "number \<Rightarrow> number \<Rightarrow> number"
  Math_PI :: number

section \<open>Constants, modes, particles, players\<close>

definition TILE :: rat where "TILE = 30"
definition HEIGHT :: rat where "HEIGHT = 14 * TILE"
definition BASE_WIDTH :: rat where "BASE_WIDTH = 500 * TILE"

record modeData =
  baseSpeed :: number
  gravity :: number
  jump :: number
  thrust :: number
  speed :: number

definition mk_mode :: "rat \<Rightarrow> rat \<Rightarrow> rat \<Rightarrow> rat \<Rightarrow> rat \<Rightarrow> modeData" where
  "mk_mode b g j t s =
     \<lparr>baseSpeed = Num b, gravity = Num g, jump = Num j, thrust = Num t, speed = Num s\<rparr>"

text \<open>
  \<open>MODES[m]\<close>. The table is an object literal, so besides its eight own keys the
  lookup finds the properties it inherits from \<open>Object.prototype\<close>: for these names
  the result is a function (for \<open>__proto__\<close> the prototype object), which has none of
  the five properties of a mode, and every one of them reads as \<open>undefined\<close>, in
  arithmetic \<open>NaN\<close>. For every other value the lookup gives \<open>undefined\<close>,
  here \<open>None\<close>, and reading a property of it is a TypeError. A value that is not a
  string is converted to one, which is none of these names.
\<close>

definition Object_prototype_keys :: "string list" where
  "Object_prototype_keys =
     [''constructor'', ''__defineGetter__'', ''__defineSetter__'', ''hasOwnProperty'',
      ''__lookupGetter__'', ''__lookupSetter__'', ''isPrototypeOf'', ''propertyIsEnumerable'',
      ''toString'', ''valueOf'', ''__proto__'', ''toLocaleString'']"

definition inherited_mode :: modeData where
  "inherited_mode =
     \<lparr>baseSpeed = NaN, gravity = NaN, jump = NaN, thrust = NaN, speed = NaN\<rparr>"

fun MODES :: "jsval \<Rightarrow> modeData option" where
  "MODES (String m) =
     (if m = ''cube'' then Some (mk_mode (10309 / 1000) (89 / 100) (- 112 / 10) 0 0)
      else if m = ''ship'' then Some (mk_mode (125 / 10) (5 / 10) 0 (7 / 10) 0)
      else if m = ''ball'' then Some (mk_mode (10309 / 1000) 0 0 0 0)
      else if m = ''ufo'' then Some (mk_mode (10309 / 1000) (89 / 100 / 2) (- 85 / 10) 0 0)
      else if m = ''wave'' then Some (mk_mode 13 0 0 0 15)
      else if m = ''robot'' then Some (mk_mode (10309 / 1000) (11 / 10) (- 15) 0 0)
      else if m = ''spider'' then Some (mk_mode (10309 / 1000) 0 (- 112 / 10) 0 0)
      else if m = ''swing'' then Some (mk_mode 12 (6 / 10) 0 (8 / 10) 0)
      else if m \<in> set Object_prototype_keys then Some inherited_mode
      else None)"
| "MODES _ = None"

text \<open>
  A particle before its first \<open>init\<close> has no properties; its numeric fields are then
  \<open>NaN\<close>. The fields \<open>qx\<close>, \<open>qy\<close>, \<open>qvx\<close>, \<open>qvy\<close>, \<open>qtype\<close>,
  \<open>qcolor\<close> are the script's \<open>x\<close>, \<open>y\<close>, \<open>vx\<close>, \<open>vy\<close>, \<open>type\<close>,
  \<open>color\<close>.
\<close>

record Particle =
  qx :: number
  qy :: number
  qvx :: number
  qvy :: number
  life :: number
  qtype :: "string option"
  qcolor :: number

definition new_Particle :: Particle where
  "new_Particle = \<lparr>qx = NaN, qy = NaN, qvx = NaN, qvy = NaN, life = NaN, qtype = None,
                    qcolor = NaN\<rparr>"

text \<open>
  The player. \<open>px\<close>, \<open>py\<close>, \<open>psize\<close>, \<open>prot\<close>, \<open>pcolor\<close> are the script's
  \<open>x\<close>, \<open>y\<close>, \<open>size\<close>, \<open>rot\<close>, \<open>color\<close>. The trail holds
  \<open>(x, y, rot)\<close>.
\<close>

record Player =
  px :: number
  py :: number
  vx :: number
  vy :: number
  mode :: jsval
  flip :: number
  mini :: bool
  psize :: number
  active :: bool
  onGround :: bool
  jumpHold :: number
  dashHold :: bool
  prot :: number
  trail :: "(number \<times> number \<times> number) list"
  mirror :: bool
  pcolor :: number

definition Player_reset :: Player where
  "Player_reset =
     \<lparr>px = Num (TILE * 3), py = Num (HEIGHT - TILE * (3 / 2)),
      vx = Num (10309 / 1000), vy = Num 0, mode = String ''cube'', flip = Num 1,
      mini = False, psize = Num 1, active = True, onGround = True, jumpHold = Num 0,
      dashHold = False, prot = Num 0, trail = [], mirror = False, pcolor = Num 4\<rparr>"

definition fixedStep :: "rat \<Rightarrow> Player \<Rightarrow> Player" where
  "fixedStep step p =
     (let p1 = p\<lparr>px := px p + vx p * Num step / Num 4\<rparr>
      in p1\<lparr>py := py p1 + vy p1 * Num step / Num 4\<rparr>)"

definition getBBox :: "Player \<Rightarrow> rect" where
  "getBBox p =
     (let s = Num TILE * psize p * (if mini p then Num (1 / 2) else Num 1) * Num (9 / 10)
      in \<lparr>rx = px p - s / Num 2, ry = py p - s / Num 2, rw = s, rh = s\<rparr>)"

definition collide :: "('a rect_scheme) \<Rightarrow> ('b rect_scheme) \<Rightarrow> bool" where
  "collide a b \<longleftrightarrow>
     rx a < rx b + rw b \<and> rx a + rw a > rx b \<and> ry a < ry b + rh b \<and> ry a + rh a > ry b"

section \<open>The game state\<close>

record level =
  lobjects :: "addr list"
  width :: number
  height :: number

record camera =
  cam_x :: number
  cam_y :: number
  zoom :: number

datatype error = TypeError

text \<open>
  The fields of \<open>Game\<close> that the simulation reads or writes. \<open>heap\<close> holds the level
  objects, \<open>particles\<close> the 1000 particle objects that the slots of
  \<open>particlesPool\<close> refer to (two slots can refer to one particle after a swap
  removal). \<open>gstate\<close>, \<open>gw\<close>, \<open>gscale\<close> are the script's \<open>state\<close>, \<open>w\<close>,
  \<open>scale\<close>; a replay entry is \<open>(frame, action)\<close>; a checkpoint is \<open>(p1, p2)\<close>.
  A level is loaded: \<open>level\<close> and \<open>quadTree\<close> are not \<open>null\<close>.
\<close>

record Game =
  keys :: "string set"
  gstate :: string
  level :: level
  levelId :: int
  player :: Player
  player2 :: Player
  cam :: camera
  time :: number
  musicTime :: rat
  paused :: bool
  practice :: bool
  replayMode :: bool
  checkpoints :: "(Player \<times> Player) list"
  currentCP :: nat
  particles :: "Particle list"
  particlesPool :: "addr list"
  activeParticles :: nat
  lastTime :: rat
  accumulator :: rat
  frameCount :: nat
  speedMult :: jsval
  replays :: "(number \<times> string) list"
  replayIndex :: nat
  stars :: int
  coins :: int
  orbs :: int
  quadTree :: QuadTree
  heap :: heap
  gw :: number
  gscale :: number
  randomCalls :: nat

datatype which = P1 | P2

definition getP :: "which \<Rightarrow> Game \<Rightarrow> Player" where
  "getP s g = (case s of P1 \<Rightarrow> player g | P2 \<Rightarrow> player2 g)"

definition setP :: "which \<Rightarrow> Player \<Rightarrow> Game \<Rightarrow> Game" where
  "setP s p g = (case s of P1 \<Rightarrow> g\<lparr>player := p\<rparr> | P2 \<Rightarrow> g\<lparr>player2 := p\<rparr>)"

section \<open>Particles\<close>

fun Math_floor :: "number \<Rightarrow> number" where
  "Math_floor (Num a) = Num (of_int \<lfloor>a\<rfloor>)"
| "Math_floor NaN = NaN"

text \<open>\<open>Particle.init\<close> on the particle at address \<open>a\<close>; four calls of \<open>Math.random\<close>.\<close>

definition Particle_init :: "host \<Rightarrow> number \<Rightarrow> number \<Rightarrow> string \<Rightarrow> addr \<Rightarrow> Game \<Rightarrow> Game" where
  "Particle_init h x y t a g =
     (let n = randomCalls g;
          q = \<lparr>qx = x, qy = y,
               qvx = (Num (Math_random h n) - Num (1 / 2)) * Num 20,
               qvy = (Num (Math_random h (n + 1)) - Num (1 / 2)) * Num 20,
               life = Num (Math_random h (n + 2)) * Num (1 / 2) + Num (1 / 2),
               qtype = Some t,
               qcolor = Math_floor (Num (Math_random h (n + 3)) * Num 16)\<rparr>
      in g\<lparr>particles := (particles g)[a := q], randomCalls := n + 4\<rparr>)"

text \<open>\<open>Particle.update\<close>: the particle after the call; the result is \<open>life > 0\<close>.\<close>

definition Particle_update :: "rat \<Rightarrow> Particle \<Rightarrow> Particle" where
  "Particle_update dt q =
     q\<lparr>qx := qx q + qvx q * Num dt * Num 60,
       qy := qy q + qvy q * Num dt * Num 60,
       qvx := qvx q * Num (98 / 100),
       qvy := qvy q * Num (98 / 100),
       life := life q - Num dt\<rparr>"

text \<open>
  \<open>addParticle(x, y, type, count)\<close>: the loop runs \<open>count\<close> times unless it breaks
  because every slot is active.
\<close>

fun addParticle :: "host \<Rightarrow> number \<Rightarrow> number \<Rightarrow> string \<Rightarrow> nat \<Rightarrow> Game \<Rightarrow> Game" where
  "addParticle h x y t 0 g = g"
| "addParticle h x y t (Suc n) g =
     (if activeParticles g \<ge> length (particlesPool g) then g
      else addParticle h x y t n
             (Particle_init h x y t (particlesPool g ! activeParticles g)
                (g\<lparr>activeParticles := activeParticles g + 1\<rparr>)))"

text \<open>
  \<open>updateParticles\<close>: the loop over the active slots, from index \<open>i\<close>. A dead
  particle's slot takes the reference of the last active slot and is visited again.
\<close>

function updateParticles_from :: "rat \<Rightarrow> nat \<Rightarrow> Game \<Rightarrow> Game" where
  "updateParticles_from dt i g =
     (if i < activeParticles g then
        (let a = particlesPool g ! i;
             q = Particle_update dt (particles g ! a);
             g1 = g\<lparr>particles := (particles g)[a := q]\<rparr>
         in if \<not> (life q > Num 0) then
              (let n = activeParticles g1 - 1
               in updateParticles_from dt i
                    (g1\<lparr>particlesPool := (particlesPool g1)[i := particlesPool g1 ! n],
                        activeParticles := n\<rparr>))
            else updateParticles_from dt (i + 1) g1)
      else g)"
  by pat_completeness auto
termination
  by (relation "measure (\<lambda>(dt, i, g). activeParticles g - i)") (auto simp: Let_def)

declare updateParticles_from.simps [simp del]

definition updateParticles :: "rat \<Rightarrow> Game \<Rightarrow> Game" where
  "updateParticles dt g = updateParticles_from dt 0 g"

section \<open>Level generation and loading\<close>

text \<open>
  A counting loop \<open>for (let i = a; i < b; i += d)\<close> yields the values of \<open>i\<close>; the
  script's steps are 1 and 0.5.
\<close>

function for_loop :: "rat \<Rightarrow> rat \<Rightarrow> rat \<Rightarrow> rat list" where
  "for_loop i e d = (if i < e \<and> 0 < d then i # for_loop (i + d) e d else [])"
  by pat_completeness auto
termination
proof (relation "measure (\<lambda>(i, e, d). nat \<lceil>(e - i) / d\<rceil>)")
  show "wf (measure (\<lambda>(i, e, d). nat \<lceil>(e - i) / d\<rceil>))" by simp
next
  fix i e d :: rat
  assume a: "i < e \<and> 0 < d"
  then have "(e - (i + d)) / d = (e - i) / d - 1"
    by (simp add: field_simps)
  then have c: "\<lceil>(e - (i + d)) / d\<rceil> = \<lceil>(e - i) / d\<rceil> - 1"
    by simp
  from a have "0 < (e - i) / d" by simp
  then have "0 < \<lceil>(e - i) / d\<rceil>" by linarith
  with c show "((i + d, e, d), (i, e, d)) \<in> measure (\<lambda>(i, e, d). nat \<lceil>(e - i) / d\<rceil>)"
    by simp
qed

declare for_loop.simps [simp del]

definition addGround :: "rat \<Rightarrow> rat \<Rightarrow> obj list" where
  "addGround start end' =
     map (\<lambda>i. (new_obj (i * TILE) (HEIGHT - TILE / 2) TILE (TILE / 2) ''block'')\<lparr>group := Some 1\<rparr>)
       (for_loop start end' 1)"

definition addSpike :: "rat \<Rightarrow> number \<Rightarrow> obj" where
  "addSpike pos rot = (new_obj (pos * TILE) (HEIGHT - TILE) TILE TILE ''spike'')\<lparr>orot := rot\<rparr>"

definition addOrb :: "rat \<Rightarrow> rat \<Rightarrow> string \<Rightarrow> obj" where
  "addOrb pos yOff t =
     (new_obj (pos * TILE) (HEIGHT - yOff * TILE) TILE TILE ''orb'')\<lparr>effect := Some t\<rparr>"

definition addPortal :: "rat \<Rightarrow> string \<Rightarrow> jsval \<Rightarrow> obj" where
  "addPortal pos e v =
     (new_obj (pos * TILE) (HEIGHT - 2 * TILE) (3 / 2 * TILE) (1 / 2 * TILE) ''portal'')
       \<lparr>effect := Some e, ovalue := v\<rparr>"

definition addCoin :: "rat \<Rightarrow> rat \<Rightarrow> int \<Rightarrow> obj" where
  "addCoin pos yOff i =
     (new_obj (pos * TILE) (HEIGHT - yOff * TILE) TILE TILE ''coin'')\<lparr>oid := Some i\<rparr>"

definition finish_at :: "rat \<Rightarrow> obj" where
  "finish_at wd = new_obj (wd - TILE) (HEIGHT - 3 / 2 * TILE) TILE TILE ''finish''"

definition is_multiple_of_3 :: "rat \<Rightarrow> bool" where
  "is_multiple_of_3 i \<longleftrightarrow> of_int \<lfloor>i\<rfloor> = i \<and> \<lfloor>i\<rfloor> mod 3 = 0"

text \<open>
  \<open>generateLevel(id)\<close> returns the object literals in the order they are pushed, and
  the width; the height is always \<open>HEIGHT\<close>. The property \<open>duration\<close> of the move
  trigger is never read and is left out.
\<close>

definition generateLevel :: "host \<Rightarrow> int \<Rightarrow> obj list \<times> rat" where
  "generateLevel h i =
     (if i = 1 then
        (let wd = 120 * TILE; n = wd / TILE in
         (addGround 0 n
          @ map (\<lambda>p. addSpike (p / 100 * n) (Num 0)) [10, 15, 20, 25, 30, 35, 40]
          @ map (\<lambda>p. addOrb (p / 100 * n) (3 / 2) ''yellow'') [12, 17, 22, 27, 32, 37]
          @ [addPortal (45 / 100 * n) ''mode'' (String ''ship'')]
          @ concat (map (\<lambda>j. new_obj (j * TILE) (2 * TILE) TILE TILE ''block''
                           # (if is_multiple_of_3 j
                              then [new_obj (j * TILE) (HEIGHT - 3 * TILE) TILE TILE ''block'']
                              else []))
                     (for_loop (50 / 100 * n) (70 / 100 * n) 1))
          @ [addPortal (70 / 100 * n) ''mode'' (String ''cube''),
             addCoin (50 / 100 * n) 4 1, addCoin (74 / 100 * n) 3 2, addCoin (98 / 100 * n) 6 3,
             finish_at wd], wd))
      else if i = 2 then
        (let wd = 100 * TILE; n = wd / TILE in
         (addGround 0 n
          @ [addPortal (20 / 100 * n) ''gravity'' Undefined]
          @ map (\<lambda>p. addSpike (p / 100 * n) (Math_PI h)) [25, 30, 35]
          @ [addPortal (40 / 100 * n) ''gravity'' Undefined,
             addCoin (35 / 100 * n) 2 1, addCoin (65 / 100 * n) 5 2, addCoin (93 / 100 * n) 3 3]
          @ map (\<lambda>p. addOrb (p / 100 * n) (3 / 2) ''yellow'') [22, 42, 62]
          @ [finish_at wd], wd))
      else if i = 3 then
        (let wd = 110 * TILE; n = wd / TILE in
         (addGround 0 n
          @ map (\<lambda>p. addOrb (p / 100 * n) 2 ''yellow'') [10, 15, 20, 30, 40, 50, 60]
          @ [addPortal (25 / 100 * n) ''gravity'' Undefined,
             addPortal (55 / 100 * n) ''gravity'' Undefined,
             addCoin (28 / 100 * n) 4 1, addCoin (62 / 100 * n) 3 2, addCoin (90 / 100 * n) 5 3]
          @ map (\<lambda>p. addSpike (p / 100 * n) (Num 0)) [12, 22, 32, 42, 52, 62, 72]
          @ [finish_at wd], wd))
      else if i = 4 then
        (let wd = 115 * TILE; n = wd / TILE in
         (addGround 0 n
          @ [addPortal (15 / 100 * n) ''gravity'' Undefined]
          @ map (\<lambda>p. addSpike (p / 100 * n) (Math_PI h)) [20, 25, 30, 35]
          @ [addPortal (40 / 100 * n) ''gravity'' Undefined,
             addPortal (45 / 100 * n) ''mode'' (String ''ship'')]
          @ map (\<lambda>j. new_obj (j * TILE) (3 * TILE) (TILE / 2) (TILE / 2) ''block'')
              (for_loop (46 / 100 * n) (55 / 100 * n) (1 / 2))
          @ [addPortal (55 / 100 * n) ''mode'' (String ''cube''),
             addCoin (30 / 100 * n) 4 1, addCoin (70 / 100 * n) 2 2, addCoin (95 / 100 * n) 5 3,
             finish_at wd], wd))
      else if i = 22 then
        (let wd = 130 * TILE; n = wd / TILE in
         (addGround 0 n
          @ [addPortal (20 / 100 * n) ''mode'' (String ''swing'')]
          @ map (\<lambda>p. addOrb (p / 100 * n) (3 / 2) ''dash'') [25, 35, 45]
          @ [addPortal (50 / 100 * n) ''mode'' (String ''cube''),
             addCoin (30 / 100 * n) 3 1, addCoin (60 / 100 * n) 4 2, addCoin (90 / 100 * n) 2 3,
             finish_at wd], wd))
      else
        (let wd = 600 * TILE; n = wd / TILE in
         (addGround 0 n
          @ [addSpike 5 (Num 0),
             addOrb 10 (3 / 2) ''yellow'', addOrb 15 (3 / 2) ''green'',
             addOrb 20 (3 / 2) ''red'', addOrb 25 (3 / 2) ''dash'',
             addPortal 30 ''gravity'' Undefined, addPortal 35 ''mini'' Undefined,
             addPortal 40 ''mirror'' Undefined, addPortal 45 ''dual'' Undefined,
             addPortal 50 ''speed'' (Number (Num (1 / 2))), addPortal 55 ''speed'' (Number (Num 2)),
             addPortal 60 ''speed'' (Number (Num 3)), addPortal 65 ''speed'' (Number (Num 4)),
             addPortal 70 ''mode'' (String ''cube''), addPortal 75 ''mode'' (String ''ship''),
             addPortal 80 ''mode'' (String ''ball''), addPortal 85 ''mode'' (String ''ufo''),
             addPortal 90 ''mode'' (String ''wave''), addPortal 95 ''mode'' (String ''robot''),
             addPortal 100 ''mode'' (String ''spider''), addPortal 105 ''mode'' (String ''swing''),
             (new_obj (110 * TILE) (HEIGHT - 2 * TILE) TILE TILE ''tele'')
               \<lparr>targetX := Num (150 * TILE), targetY := Num (4 * TILE)\<rparr>,
             (new_obj (150 * TILE) (4 * TILE) TILE TILE ''tele'')
               \<lparr>targetX := Num (110 * TILE), targetY := Num (HEIGHT - 2 * TILE)\<rparr>,
             (new_obj (120 * TILE) (HEIGHT - TILE) TILE TILE ''trigger'')
               \<lparr>effect := Some ''move'', targetGroup := Some 1, dx := Num 50, dy := Num 0\<rparr>,
             (new_obj (130 * TILE) (HEIGHT - TILE) TILE TILE ''trigger'')
               \<lparr>effect := Some ''color'', targetGroup := Some 1, ocolor := Some 5\<rparr>,
             (new_obj (140 * TILE) (HEIGHT - TILE) TILE TILE ''trigger'')
               \<lparr>effect := Some ''alpha'', targetGroup := Some 1, oalpha := Some (Num (1 / 2))\<rparr>,
             addCoin 160 3 1, addCoin 170 4 2, addCoin 180 2 3]
          @ map (\<lambda>p. addOrb p (3 / 2) ''yellow'') [190, 200, 210]
          @ [finish_at wd], wd)))"

text \<open>
  \<open>loadLevel(id)\<close>. The generated objects are new: they are appended to the heap, and
  the level and the rebuilt tree refer to them. \<open>setState('game')\<close> sets the state and
  clears \<open>paused\<close>; \<open>player2.reset()\<close> is followed by \<open>player2.active = false\<close>.
\<close>

definition rebuild :: "heap \<Rightarrow> level \<Rightarrow> QuadTree" where
  "rebuild hp lv =
     insert_all hp (lobjects lv)
       (new_QuadTree \<lparr>rx = Num 0, ry = Num 0, rw = width lv, rh = height lv\<rparr>)"

definition loadLevel :: "host \<Rightarrow> int \<Rightarrow> Game \<Rightarrow> Game" where
  "loadLevel h i g =
     (let (objs, wd) = generateLevel h i;
          base = length (heap g);
          hp = heap g @ objs;
          lv = \<lparr>lobjects = [base ..< base + length objs], width = Num wd, height = Num HEIGHT\<rparr>
      in g\<lparr>levelId := i, gstate := ''game'', paused := False, level := lv, heap := hp,
           quadTree := rebuild hp lv,
           player := Player_reset, player2 := Player_reset\<lparr>active := False\<rparr>,
           time := Num 0, musicTime := 0, currentCP := 0, activeParticles := 0,
           coins := 0, orbs := 0, replays := [], speedMult := Number (Num 1)\<rparr>)"

definition restart :: "host \<Rightarrow> Game \<Rightarrow> Game" where
  "restart h g = loadLevel h (levelId g) g"

text \<open>\<open>win()\<close>: after the alert, \<open>setState('menu')\<close>.\<close>

definition win :: "Game \<Rightarrow> Game" where
  "win g = g\<lparr>gstate := ''menu''\<rparr>"

text \<open>
  \<open>die(player)\<close>. The particles are spawned at the position of the player that died;
  the checkpoint is restored into \<open>this.player\<close> and, if active, \<open>this.player2\<close>.
  Reading \<open>cp.p1\<close> of a checkpoint that does not exist is a TypeError.
\<close>

definition die :: "host \<Rightarrow> which \<Rightarrow> Game \<Rightarrow> error + Game" where
  "die h s g =
     (let g1 = addParticle h (px (getP s g)) (py (getP s g)) ''death'' 50 g in
      if practice g1 \<and> checkpoints g1 \<noteq> [] then
        (if currentCP g1 < length (checkpoints g1) then
           (let cp = checkpoints g1 ! currentCP g1;
                g2 = g1\<lparr>player := fst cp\<rparr>
            in Inr (if active (player2 g2) then g2\<lparr>player2 := snd cp\<rparr> else g2))
         else Inl TypeError)
      else Inr (restart h g1))"

section \<open>The player: contact dispatch, jump, update\<close>

text \<open>
  \<open>jumps[o.effect]\<close> as a factor of a product: \<open>NaN\<close> for an effect that is not a
  key of the table.
\<close>

definition jumps :: "string option \<Rightarrow> number" where
  "jumps e =
     (if e = Some ''yellow'' then Num 1
      else if e = Some ''green'' then Num (12 / 10)
      else if e = Some ''red'' then Num (8 / 10)
      else if e = Some ''dash'' then Num 0
      else NaN)"

text \<open>\<open>if (o.id)\<close>: a number other than 0.\<close>

definition truthy_id :: "int option \<Rightarrow> bool" where
  "truthy_id i \<longleftrightarrow> (case i of None \<Rightarrow> False | Some n \<Rightarrow> n \<noteq> 0)"

definition set_used :: "addr \<Rightarrow> Game \<Rightarrow> Game" where
  "set_used a g = g\<lparr>heap := (heap g)[a := (heap g ! a)\<lparr>used := True\<rparr>]\<rparr>"

text \<open>
  \<open>handleObject(o)\<close> of the player \<open>s\<close> on the object at address \<open>a\<close>.
  \<open>MODES[this.mode].jump\<close> is a TypeError when the lookup gives \<open>undefined\<close>.
\<close>

definition handleObject :: "host \<Rightarrow> which \<Rightarrow> addr \<Rightarrow> Game \<Rightarrow> error + Game" where
  "handleObject h s a g =
     (if used (heap g ! a) then Inr g
      else
        let g0 = set_used a g; ob = heap g0 ! a; p = getP s g0 in
        if otype ob = ''portal'' then
          (let p1 = (if effect ob = Some ''gravity'' then p\<lparr>flip := flip p * Num (- 1)\<rparr> else p);
               p2 = (if effect ob = Some ''mini'' then p1\<lparr>mini := \<not> mini p1\<rparr> else p1);
               p3 = (if effect ob = Some ''mirror'' then p2\<lparr>mirror := \<not> mirror p2\<rparr> else p2);
               g1 = setP s p3 g0;
               g2 = (if effect ob = Some ''dual''
                     then g1\<lparr>player2 := (player2 g1)\<lparr>active := \<not> active (player2 g1)\<rparr>\<rparr>
                     else g1);
               g3 = (if effect ob = Some ''speed'' then g2\<lparr>speedMult := ovalue ob\<rparr> else g2);
               g4 = (if effect ob = Some ''mode''
                     then setP s ((getP s g3)\<lparr>mode := ovalue ob\<rparr>) g3 else g3)
           in Inr g4)
        else if otype ob = ''tele'' then
          Inr (setP s (p\<lparr>px := targetX ob, py := targetY ob\<rparr>) g0)
        else if otype ob = ''orb'' then
          (case MODES (mode p) of
             None \<Rightarrow> Inl TypeError
           | Some md \<Rightarrow>
               (let p1 = p\<lparr>vy := jump md * flip p * jumps (effect ob)\<rparr>;
                    p2 = (if effect ob = Some ''dash'' then p1\<lparr>dashHold := True\<rparr> else p1);
                    g1 = addParticle h (rx ob) (ry ob) ''orb'' 30 (setP s p2 g0)
                in Inr (if truthy_id (oid ob) then g1\<lparr>orbs := orbs g1 + 1\<rparr> else g1)))
        else if otype ob = ''pad'' then
          (case MODES (mode p) of
             None \<Rightarrow> Inl TypeError
           | Some md \<Rightarrow>
               Inr (addParticle h (rx ob) (ry ob) ''pad'' 20
                      (setP s (p\<lparr>vy := jump md * flip p * Num (3 / 2)\<rparr>) g0)))
        else if otype ob = ''coin'' then
          Inr (addParticle h (rx ob) (ry ob) ''coin'' 40 (g0\<lparr>coins := coins g0 + 1\<rparr>))
        else if otype ob = ''finish'' then Inr (win g0)
        else if otype ob = ''spike'' then die h s g0
        else Inr g0)"

text \<open>\<open>jump(hold)\<close>; the default of \<open>hold\<close> is false.\<close>

definition Player_jump :: "bool \<Rightarrow> Player \<Rightarrow> error + Player" where
  "Player_jump hold p =
     (if onGround p \<or> hold then
        (case MODES (mode p) of
           None \<Rightarrow> Inl TypeError
         | Some md \<Rightarrow> Inr (p\<lparr>vy := jump md * flip p\<rparr>))
      else Inr p)"

text \<open>
  \<open>Player.update\<close> in its parts. \<open>Player_move\<close> is the script from the assignment of
  \<open>vx\<close> to \<open>this.onGround = false\<close>: velocities, the rule of the mode, the step of
  the position. \<open>sm\<close> is \<open>game.speedMult\<close> as a factor, \<open>input\<close> whether Space or
  ArrowUp is held.
\<close>

definition Player_move :: "host \<Rightarrow> rat \<Rightarrow> bool \<Rightarrow> number \<Rightarrow> modeData \<Rightarrow> Player \<Rightarrow> Player" where
  "Player_move h dt input sm md p =
     (let gdt = Num (dt * 240);
          p1 = p\<lparr>vx := baseSpeed md * sm * (if mirror p then Num (- 1) else Num 1)\<rparr>;
          p2 = p1\<lparr>vy := vy p1 + gravity md * flip p1 * gdt
                               * (if mini p1 then Num (7 / 10) else Num 1)\<rparr>;
          p3 = p2\<lparr>jumpHold := (if input then jumpHold p2 + gdt else Num 0)\<rparr>;
          thr = (if input then - thrust md * gdt else thrust md * gdt);
          p4 =
            (if mode p3 = String ''cube'' then
               (let q = (if onGround p3 \<and> strict_eq (jumpHold p3) gdt
                         then p3\<lparr>vy := jump md * flip p3\<rparr> else p3)
                in q\<lparr>prot := prot q + vx q * Num dt * (if onGround q then Num 5 else Num 3)\<rparr>)
             else if mode p3 = String ''ship'' then
               (let q = p3\<lparr>vy := vy p3 + thr\<rparr>
                in q\<lparr>prot := Math_atan2 h (vy q) (vx q) * Num (1 / 10)\<rparr>)
             else if mode p3 = String ''ball'' then
               (let q = (if strict_eq (jumpHold p3) gdt
                         then p3\<lparr>flip := flip p3 * Num (- 1)\<rparr> else p3);
                    q1 = q\<lparr>vy := Num 0\<rparr>
                in q1\<lparr>prot := prot q1 + vx q1 * Num dt * Num 10\<rparr>)
             else if mode p3 = String ''ufo'' then
               (let q = (if strict_eq (jumpHold p3) gdt
                         then p3\<lparr>vy := jump md * flip p3\<rparr> else p3)
                in q\<lparr>vy := Math_max (Math_min (vy q) (Num 10)) (Num (- 10))\<rparr>)
             else if mode p3 = String ''wave'' then
               (let q = p3\<lparr>vy := (if input then Num (- 1) else Num 1) * speed md * flip p3\<rparr>
                in q\<lparr>prot := Math_atan2 h (vy q) (vx q) * Num 180 / Math_PI h + Num 90\<rparr>)
             else if mode p3 = String ''robot'' then
               (if onGround p3 \<and> jumpHold p3 > Num 10
                then p3\<lparr>vy := jump md * flip p3 * (jumpHold p3 / Num 20)\<rparr> else p3)
             else if mode p3 = String ''spider'' then
               (if strict_eq (jumpHold p3) gdt then
                  (let q = p3\<lparr>flip := flip p3 * Num (- 1)\<rparr> in q\<lparr>vy := jump md * flip q\<rparr>)
                else p3)
             else if mode p3 = String ''swing'' then
               (let q = p3\<lparr>vy := vy p3 + thr\<rparr> in q\<lparr>prot := vy q * Num (15 / 100)\<rparr>)
             else p3);
          p5 = p4\<lparr>px := px p4 + vx p4 * gdt\<rparr>;
          p6 = p5\<lparr>py := py p5 + vy p5 * gdt\<rparr>
      in p6\<lparr>onGround := False\<rparr>)"

text \<open>
  The X pass and the Y pass over the objects \<open>vis\<close> that the query returned.
  \<open>bbox\<close> is the box computed once before the passes; the tests use it with its
  \<open>x\<close> (its \<open>y\<close>) replaced by the player's current \<open>this.x\<close> (\<open>this.y\<close>).
\<close>

fun collideX :: "heap \<Rightarrow> rect \<Rightarrow> addr list \<Rightarrow> Player \<Rightarrow> Player" where
  "collideX hp bbox [] p = p"
| "collideX hp bbox (a # as) p =
     collideX hp bbox as
       (if otype (hp ! a) = ''block'' \<and> collide (bbox\<lparr>rx := px p\<rparr>) (hp ! a)
        then p\<lparr>px := (if vx p > Num 0 then rx (hp ! a) - rw bbox
                       else rx (hp ! a) + rw (hp ! a))\<rparr>
        else p)"

fun collideY :: "heap \<Rightarrow> rect \<Rightarrow> addr list \<Rightarrow> Player \<Rightarrow> Player" where
  "collideY hp bbox [] p = p"
| "collideY hp bbox (a # as) p =
     collideY hp bbox as
       (if otype (hp ! a) = ''block'' \<and> collide (bbox\<lparr>ry := py p\<rparr>) (hp ! a)
        then
          (if vy p * flip p > Num 0
           then p\<lparr>py := (if flip p > Num 0 then ry (hp ! a) - rh bbox
                          else ry (hp ! a) + rh (hp ! a)),
                   vy := Num 0, onGround := True\<rparr>
           else p\<lparr>py := (if flip p > Num 0 then ry (hp ! a) + rh (hp ! a)
                          else ry (hp ! a) - rh bbox),
                   vy := Num 0\<rparr>)
        else p)"

text \<open>
  The dispatch loop \<open>vis.forEach(o => { if (collide(bbox, o)) this.handleObject(o) })\<close>.
  An exception ends the loop and the update.
\<close>

fun handleObjects :: "host \<Rightarrow> which \<Rightarrow> rect \<Rightarrow> addr list \<Rightarrow> Game \<Rightarrow> error + Game" where
  "handleObjects h s bbox [] g = Inr g"
| "handleObjects h s bbox (a # as) g =
     (if collide bbox (heap g ! a) then
        (case handleObject h s a g of
           Inl e \<Rightarrow> Inl e
         | Inr g1 \<Rightarrow> handleObjects h s bbox as g1)
      else handleObjects h s bbox as g)"

definition key_input :: "string set \<Rightarrow> bool" where
  "key_input ks \<longleftrightarrow> ''Space'' \<in> ks \<or> ''ArrowUp'' \<in> ks"

text \<open>The player after the move, before the passes.\<close>

definition moved :: "host \<Rightarrow> which \<Rightarrow> rat \<Rightarrow> Game \<Rightarrow> modeData \<Rightarrow> Player" where
  "moved h s dt g md =
     Player_move h dt (key_input (keys g)) (ToNumber (speedMult g)) md (getP s g)"

definition push_trail :: "Player \<Rightarrow> Player" where
  "push_trail p =
     (let p1 = p\<lparr>trail := trail p @ [(px p, py p, prot p)]\<rparr>
      in if length (trail p1) > 30 then p1\<lparr>trail := tl (trail p1)\<rparr> else p1)"

text \<open>
  \<open>update(dt, keys, quadTree)\<close> of the player \<open>s\<close>, called with the game's key set
  and tree. \<open>modeData.baseSpeed\<close> is a TypeError when the lookup of the mode gives
  \<open>undefined\<close>.
\<close>

definition Player_update :: "host \<Rightarrow> which \<Rightarrow> rat \<Rightarrow> Game \<Rightarrow> error + Game" where
  "Player_update h s dt g =
     (case MODES (mode (getP s g)) of
        None \<Rightarrow> Inl TypeError
      | Some md \<Rightarrow>
          (let p1 = moved h s dt g md;
               bbox = getBBox p1;
               vis = query (heap g) bbox (quadTree g) [];
               p2 = collideX (heap g) bbox vis p1;
               p3 = collideY (heap g) bbox vis p2
           in case handleObjects h s bbox vis (setP s p3 g) of
                Inl e \<Rightarrow> Inl e
              | Inr g1 \<Rightarrow> Inr (setP s (push_trail (getP s g1)) g1)))"

section \<open>Triggers\<close>

text \<open>
  The three effects of \<open>handleTrigger\<close> on the level objects whose group is the target
  group, applied once per entry of \<open>level.objects\<close>.
\<close>

definition in_group :: "heap \<Rightarrow> int option \<Rightarrow> addr \<Rightarrow> bool" where
  "in_group hp tg a \<longleftrightarrow> group (hp ! a) = tg"

definition apply_each :: "(obj \<Rightarrow> obj) \<Rightarrow> addr list \<Rightarrow> heap \<Rightarrow> heap" where
  "apply_each f as hp = foldl (\<lambda>hp1 a. hp1[a := f (hp1 ! a)]) hp as"

definition handleTrigger :: "addr \<Rightarrow> Game \<Rightarrow> Game" where
  "handleTrigger a g =
     (if used (heap g ! a) then g
      else
        let g0 = set_used a g; ob = heap g0 ! a;
            targets = (\<lambda>hp. filter (in_group hp (targetGroup ob)) (lobjects (level g0)));
            g1 = (if effect ob = Some ''move'' then
                    (let hp = apply_each (\<lambda>b. b\<lparr>rx := rx b + dx ob, ry := ry b + dy ob\<rparr>)
                                (targets (heap g0)) (heap g0)
                     in g0\<lparr>heap := hp, quadTree := rebuild hp (level g0)\<rparr>)
                  else g0);
            g2 = (if effect ob = Some ''color'' then
                    g1\<lparr>heap := apply_each (\<lambda>b. b\<lparr>ocolor := ocolor ob\<rparr>)
                                  (targets (heap g1)) (heap g1)\<rparr>
                  else g1);
            g3 = (if effect ob = Some ''alpha'' then
                    g2\<lparr>heap := apply_each (\<lambda>b. b\<lparr>oalpha := oalpha ob\<rparr>)
                                  (targets (heap g2)) (heap g2)\<rparr>
                  else g2)
        in g3)"

text \<open>
  \<open>updateTriggers\<close>: the loop over the objects the query returned for the player's
  box; the objects are read as they are when the loop reaches them.
\<close>

fun triggers_each :: "rect \<Rightarrow> addr list \<Rightarrow> Game \<Rightarrow> Game" where
  "triggers_each bbox [] g = g"
| "triggers_each bbox (a # as) g =
     triggers_each bbox as
       (if otype (heap g ! a) = ''trigger'' \<and> collide bbox (heap g ! a)
        then handleTrigger a g else g)"

definition updateTriggers :: "Game \<Rightarrow> Game" where
  "updateTriggers g =
     (let bbox = getBBox (player g)
      in triggers_each bbox (query (heap g) bbox (quadTree g) []) g)"

section \<open>Input, replay, camera\<close>

definition recordReplay :: "string \<Rightarrow> Game \<Rightarrow> Game" where
  "recordReplay action g = g\<lparr>replays := replays g @ [(time g * Num 240, action)]\<rparr>"

text \<open>
  \<open>handleInput(down)\<close> in the states other than the editor, whose own handler is not
  modelled.
\<close>

definition handleInput :: "bool \<Rightarrow> Game \<Rightarrow> error + Game" where
  "handleInput down g =
     (if gstate g = ''game'' \<and> \<not> paused g then
        (case (if down then Player_jump False (player g) else Inr (player g)) of
           Inl e \<Rightarrow> Inl e
         | Inr p \<Rightarrow> Inr (recordReplay (if down then ''jump'' else ''release'') (g\<lparr>player := p\<rparr>)))
      else Inr g)"

definition toggleReplay :: "Game \<Rightarrow> Game" where
  "toggleReplay g =
     (let g1 = g\<lparr>replayMode := \<not> replayMode g\<rparr>
      in if replayMode g1 then g1\<lparr>replayIndex := 0\<rparr> else g1)"


text \<open>The body of the loop of \<open>playReplay\<close> for one action.\<close>

definition replay_action :: "string \<Rightarrow> Player \<Rightarrow> error + Player" where
  "replay_action action p =
     (case (if action = ''jump'' then Player_jump True p else Inr p) of
        Inl e \<Rightarrow> Inl e
      | Inr p1 \<Rightarrow> (if action = ''release'' then Player_jump False p1 else Inr p1))"

function playReplay :: "Game \<Rightarrow> error + Game" where
  "playReplay g =
     (if replayIndex g < length (replays g)
         \<and> fst (replays g ! replayIndex g) \<le> time g * Num 240
      then
        (case replay_action (snd (replays g ! replayIndex g)) (player g) of
           Inl e \<Rightarrow> Inl e
         | Inr p \<Rightarrow> playReplay (g\<lparr>replayIndex := replayIndex g + 1, player := p\<rparr>))
      else Inr g)"
  by pat_completeness auto
termination
  by (relation "measure (\<lambda>g. length (replays g) - replayIndex g)") auto

declare playReplay.simps [simp del]

definition updateCam :: "Game \<Rightarrow> Game" where
  "updateCam g =
     (let lead = gw g / (gscale g * Num 3);
          c1 = (cam g)\<lparr>cam_x := Math_max (px (player g) - lead) (cam_x (cam g))\<rparr>;
          c2 = (if active (player2 g)
                then c1\<lparr>cam_x := Math_min (cam_x c1) (px (player2 g) - lead)\<rparr> else c1)
      in g\<lparr>cam := c2\<lparr>cam_y := (if flip (player g) < Num 0 then Num (HEIGHT / 2) else Num 0)\<rparr>\<rparr>)"

definition checkWin :: "Game \<Rightarrow> Game" where
  "checkWin g =
     (if px (player g) > width (level g)
         \<and> (\<not> active (player2 g) \<or> px (player2 g) > width (level g))
      then win (g\<lparr>stars := stars g + 1\<rparr>) else g)"

section \<open>The frame\<close>

definition step :: rat where
  "step = 1 / 240"

definition fixedUpdate :: "rat \<Rightarrow> Game \<Rightarrow> Game" where
  "fixedUpdate st g =
     (let g1 = g\<lparr>player := fixedStep st (player g)\<rparr>
      in if active (player2 g1) then g1\<lparr>player2 := fixedStep st (player2 g1)\<rparr> else g1)"

text \<open>
  The loop \<open>while (this.accumulator >= step) { this.fixedUpdate(step); this.accumulator -= step; }\<close>.
\<close>

function drain :: "Game \<Rightarrow> Game" where
  "drain g =
     (if accumulator g \<ge> step
      then drain ((fixedUpdate step g)\<lparr>accumulator := accumulator (fixedUpdate step g) - step\<rparr>)
      else g)"
  by pat_completeness auto
termination
proof (relation "measure (\<lambda>g. nat \<lfloor>accumulator g * 240\<rfloor>)")
  show "wf (measure (\<lambda>g. nat \<lfloor>accumulator g * 240\<rfloor>))" by simp
next
  fix g :: Game
  assume a: "step \<le> accumulator g"
  have b: "accumulator (fixedUpdate step g) = accumulator g"
    by (simp add: fixedUpdate_def Let_def)
  have "(accumulator g - step) * 240 = accumulator g * 240 - 1"
    by (simp add: step_def algebra_simps)
  then have c: "\<lfloor>(accumulator g - step) * 240\<rfloor> = \<lfloor>accumulator g * 240\<rfloor> - 1"
    by simp
  from a have "1 \<le> accumulator g * 240" by (simp add: step_def)
  then have "1 \<le> \<lfloor>accumulator g * 240\<rfloor>" by linarith
  with b c show "((fixedUpdate step g)\<lparr>accumulator := accumulator (fixedUpdate step g) - step\<rparr>, g)
      \<in> measure (\<lambda>g. nat \<lfloor>accumulator g * 240\<rfloor>)"
    by simp
qed

declare drain.simps [simp del]

text \<open>
  \<open>update(dt)\<close>. \<open>advance_clock\<close> is the script from \<open>this.time += ...\<close> to
  \<open>this.accumulator += dt\<close>; \<open>before_triggers\<close> is the frame up to the call of
  \<open>updateTriggers\<close>, \<open>after_triggers\<close> the rest of it. In the editor state the
  editor's own update runs, which is not modelled.
\<close>

definition advance_clock :: "rat \<Rightarrow> Game \<Rightarrow> Game" where
  "advance_clock dt g =
     g\<lparr>time := time g + Num dt * ToNumber (speedMult g),
       musicTime := musicTime g + dt,
       accumulator := accumulator g + dt\<rparr>"

definition update_players :: "host \<Rightarrow> Game \<Rightarrow> error + Game" where
  "update_players h g =
     (case Player_update h P1 step g of
        Inl e \<Rightarrow> Inl e
      | Inr g1 \<Rightarrow> (if active (player2 g1) then Player_update h P2 step g1 else Inr g1))"

definition before_triggers :: "host \<Rightarrow> rat \<Rightarrow> Game \<Rightarrow> error + Game" where
  "before_triggers h dt g =
     (case update_players h (drain (advance_clock dt g)) of
        Inl e \<Rightarrow> Inl e
      | Inr g1 \<Rightarrow> Inr (updateParticles step g1))"

definition after_triggers :: "Game \<Rightarrow> error + Game" where
  "after_triggers g =
     (case (let g1 = checkWin (updateCam g) in if replayMode g1 then playReplay g1 else Inr g1) of
        Inl e \<Rightarrow> Inl e
      | Inr g2 \<Rightarrow> Inr (g2\<lparr>frameCount := frameCount g2 + 1\<rparr>))"


definition update :: "host \<Rightarrow> rat \<Rightarrow> Game \<Rightarrow> error + Game" where
  "update h dt g =
     (if paused g then Inr g
      else if gstate g = ''editor'' then Inr g
      else if gstate g \<noteq> ''game'' then Inr g
      else
        (case before_triggers h dt g of
           Inl e \<Rightarrow> Inl e
         | Inr g1 \<Rightarrow> after_triggers (updateTriggers g1)))"

text \<open>
  \<open>loop()\<close> with \<open>now\<close> the value of \<open>performance.now()\<close>; the drawing and the
  request of the next frame are not modelled.
\<close>

definition frame_dt :: "rat \<Rightarrow> Game \<Rightarrow> rat" where
  "frame_dt now g = min ((now - lastTime g) / 1000) (1 / 30)"

definition loop :: "host \<Rightarrow> rat \<Rightarrow> Game \<Rightarrow> error + Game" where
  "loop h now g = update h (frame_dt now g) (g\<lparr>lastTime := now\<rparr>)"


section \<open>Example states\<close>

text \<open>
  A host whose random numbers are all \<open>1/2\<close>. Its \<open>atan2\<close> is constant, which only
  shows in the rotation of the sprite.
\<close>

definition test_host :: host where
  "test_host = \<lparr>Math_random = (\<lambda>n. 1 / 2), Math_atan2 = (\<lambda>a b. Num 0),
                 Math_PI = Num (355 / 113)\<rparr>"

text \<open>
  The pool the constructor allocates, \<open>Array.from({length: 1000}, () => new Particle())\<close>:
  a thousand particles and the slots that refer to them. The two lists are not unfolded
  when a frame is evaluated on an example state.
\<close>

definition fresh_particles :: "Particle list" where
  "fresh_particles = replicate 1000 new_Particle"

definition fresh_pool :: "addr list" where
  "fresh_pool = [0 ..< 1000]"

declare fresh_particles_def [code del]
declare fresh_pool_def [code del]

text \<open>
  The state the constructor of \<open>Game\<close> leaves, for a window of \<open>w\<close> by \<open>hh\<close> at
  time \<open>now\<close>, without saved progress. No level is loaded yet: the level and the tree
  are empty placeholders for \<open>null\<close>, which \<open>loadLevel\<close> replaces.
\<close>

definition new_Game :: "rat \<Rightarrow> rat \<Rightarrow> rat \<Rightarrow> Game" where
  "new_Game w hh now =
     \<lparr>keys = {}, gstate = ''menu'',
      level = \<lparr>lobjects = [], width = Num 0, height = Num 0\<rparr>, levelId = 0,
      player = Player_reset, player2 = Player_reset,
      cam = \<lparr>cam_x = Num 0, cam_y = Num 0, zoom = Num 1\<rparr>,
      time = Num 0, musicTime = 0, paused = False, practice = False, replayMode = False,
      checkpoints = [], currentCP = 0,
      particles = fresh_particles, particlesPool = fresh_pool,
      activeParticles = 0, lastTime = now, accumulator = 0, frameCount = 0,
      speedMult = Number (Num 1), replays = [], replayIndex = 0,
      stars = 0, coins = 0, orbs = 0,
      quadTree = new_QuadTree (new_rect 0 0 0 0), heap = [],
      gw = Num w, gscale = Num (min (w / 10) (hh / (11 / 2))), randomCalls = 0\<rparr>"

text \<open>
  A running game on a level of width \<open>w\<close> and height 420 that holds the objects
  \<open>objs\<close>, as \<open>loadLevel\<close> would leave it had \<open>generateLevel\<close> returned them.
\<close>

definition example_game :: "obj list \<Rightarrow> rat \<Rightarrow> Game" where
  "example_game objs w =
     (let lv = \<lparr>lobjects = [0 ..< length objs], width = Num w, height = Num 420\<rparr>
      in (new_Game 800 600 0)
           \<lparr>gstate := ''game'', level := lv, player2 := Player_reset\<lparr>active := False\<rparr>,
            quadTree := rebuild objs lv, heap := objs\<rparr>)"


definition odd_game :: Game where
  "odd_game =
     example_game [new_obj 80 365 30 30 ''mystery'',
                   (new_obj 80 365 30 30 ''orb'')\<lparr>effect := Some ''blue''\<rparr>,
                   (new_obj 80 365 30 30 ''portal'')\<lparr>effect := Some ''warp''\<rparr>] 3000"

text \<open>A running game on an empty level of 3000 by 420.\<close>

definition empty_level_game :: Game where
  "empty_level_game = example_game [] 3000"

text \<open>
  The kinds for which \<open>handleObject\<close> has a branch, and the portal effects it tests for.
\<close>

definition handled_kinds :: "string list" where
  "handled_kinds = [''portal'', ''tele'', ''orb'', ''pad'', ''coin'', ''finish'', ''spike'']"

definition portal_effects :: "string list" where
  "portal_effects = [''gravity'', ''mini'', ''mirror'', ''dual'', ''speed'', ''mode'']"

section \<open>Relations between heaps\<close>



text \<open>
  A tree over the square of side 100 with four small objects, which fill the root, and a
  fifth object that lies across the line \<open>x = 50\<close> between the west and the east
  quadrants.
\<close>

definition straddle_heap :: heap where
  "straddle_heap =
     [new_obj 1 1 1 1 ''block'', new_obj 3 1 1 1 ''block'', new_obj 5 1 1 1 ''block'',
      new_obj 7 1 1 1 ''block'', new_obj 40 10 20 10 ''block'']"

definition straddle_tree :: QuadTree where
  "straddle_tree = insert_all straddle_heap [0, 1, 2, 3, 4] (new_QuadTree (new_rect 0 0 100 100))"

text \<open>A tree with one object, the square of side 10 at the origin.\<close>

definition single_heap :: heap where
  "single_heap = [new_obj 0 0 10 10 ''block'']"

definition single_tree :: QuadTree where
  "single_tree = insert_all single_heap [0] (new_QuadTree (new_rect 0 0 100 100))"

text \<open>
  A block overhead and a player that has just moved up and to the right into its lower
  right corner; the same player a little higher.
\<close>

definition ceiling_block :: obj where
  "ceiling_block = new_obj 100 60 30 30 ''block''"

definition rising_player :: Player where
  "rising_player =
     Player_reset\<lparr>px := Num 131, py := Num 91, vy := Num (- 15), mode := String ''robot'',
                   onGround := False\<rparr>"

definition rising_player2 :: Player where
  "rising_player2 = rising_player\<lparr>py := Num 85\<rparr>"

text \<open>All objects stored in a tree.\<close>

fun stored :: "QuadTree \<Rightarrow> addr list" where
  "stored (Leaf b c os) = os"
| "stored (Node b c os nw ne sw se) = os @ stored nw @ stored ne @ stored sw @ stored se"

text \<open>
  Two runs from the same running game on the empty level. In the live run a frame passes
  (after 16 ms), then the input goes down, then a second frame passes (at 32 ms). The
  replayed run starts from the same game with the log that the live run recorded and
  with replay switched on, and the same two frames pass.
\<close>

definition live_run1 :: "error + Game" where
  "live_run1 = loop test_host 16 empty_level_game"

definition live_run2 :: "error + Game" where
  "live_run2 = handleInput True (projr live_run1)"

definition live_run3 :: "error + Game" where
  "live_run3 = loop test_host 32 (projr live_run2)"

definition replay_start :: Game where
  "replay_start = toggleReplay (empty_level_game\<lparr>replays := replays (projr live_run2)\<rparr>)"

definition replay_run1 :: "error + Game" where
  "replay_run1 = loop test_host 16 replay_start"

definition replay_run3 :: "error + Game" where
  "replay_run3 = loop test_host 32 (projr replay_run1)"

text \<open>
  The pose of a player as the renderer reads it, and what the comparison of two runs looks
  at: whether the run failed, the pose and the vertical velocity of the player, the
  elapsed-time counter in replay units, and the replay index and log.
\<close>

definition pose :: "Player \<Rightarrow> number \<times> number \<times> number \<times> jsval \<times> bool \<times> bool" where
  "pose p = (px p, py p, prot p, mode p, mini p, mirror p)"

definition run_summary ::
    "error + Game \<Rightarrow> bool \<times> (number \<times> number \<times> number \<times> jsval \<times> bool \<times> bool) \<times> number \<times> number
       \<times> nat \<times> (number \<times> string) list" where
  "run_summary r =
     (isl r, pose (player (projr r)), vy (player (projr r)), time (projr r) * Num 240,
      replayIndex (projr r), replays (projr r))"

text \<open>
  A move trigger at the spawn position and, further on, a ground block of group 1 for it
  to move.
\<close>

definition move_trigger :: "rat \<Rightarrow> rat \<Rightarrow> obj" where
  "move_trigger x y =
     (new_obj x y 30 30 ''trigger'')
       \<lparr>effect := Some ''move'', targetGroup := Some 1, dx := Num 50, dy := Num 0\<rparr>"

definition trigger_game :: Game where
  "trigger_game =
     example_game [move_trigger 80 365,
                   (new_obj 300 405 30 15 ''block'')\<lparr>group := Some 1\<rparr>] 3000"

section \<open>Notions for the quadtree\<close>

text \<open>
  The quadrant of a rectangle on the east or west (\<open>e\<close>) and south or north (\<open>s\<close>)
  side, as \<open>subdivide\<close> computes it; a tree is well split when the bounds of the children
  of every divided node are the quadrants of its bounds. \<open>hits\<close> is the set of objects
  that a query adds to \<open>found\<close>. A rectangle is positive when its width and height are
  greater than 0.
\<close>

definition quadrant :: "bool \<Rightarrow> bool \<Rightarrow> rect \<Rightarrow> rect" where
  "quadrant e s b =
     \<lparr>rx = (if e then rx b + rw b / Num 2 else rx b),
      ry = (if s then ry b + rh b / Num 2 else ry b),
      rw = rw b / Num 2, rh = rh b / Num 2\<rparr>"

fun well_split :: "QuadTree \<Rightarrow> bool" where
  "well_split (Leaf b c os) = True"
| "well_split (Node b c os nw ne sw se) \<longleftrightarrow>
     bounds nw = quadrant False False b \<and> bounds ne = quadrant True False b
     \<and> bounds sw = quadrant False True b \<and> bounds se = quadrant True True b
     \<and> well_split nw \<and> well_split ne \<and> well_split sw \<and> well_split se"

fun hits :: "heap \<Rightarrow> ('a rect_scheme) \<Rightarrow> QuadTree \<Rightarrow> addr set" where
  "hits hp r (Leaf b c os) =
     (if intersects b r then {a \<in> set os. intersects r (hp ! a)} else {})"
| "hits hp r (Node b c os nw ne sw se) =
     (if intersects b r
      then {a \<in> set os. intersects r (hp ! a)}
           \<union> hits hp r nw \<union> hits hp r ne \<union> hits hp r sw \<union> hits hp r se
      else {})"

definition positive :: "('a rect_scheme) \<Rightarrow> bool" where
  "positive r \<longleftrightarrow> Num 0 < rw r \<and> Num 0 < rh r"

text \<open>
  The last ground block of the demo level (width 18000) and its move trigger.
\<close>

definition edge_game :: Game where
  "edge_game =
     example_game [(new_obj 17970 405 30 15 ''block'')\<lparr>group := Some 1\<rparr>,
                   move_trigger 3600 390] 18000"

section \<open>Properties\<close>

text \<open>
  The theorems below are about the functions above. The lemmas of this first part say
  which fields of the game each function leaves alone.
\<close>

lemma number_arith [simp]:
  "Num a + Num b = Num (a + b)" "Num a - Num b = Num (a - b)" "Num a * Num b = Num (a * b)"
  "- Num a = Num (- a)" "(Num a < Num b) = (a < b)" "(Num a \<le> Num b) = (a \<le> b)"
  by simp_all

lemma example_game_fields:
  "gstate (example_game objs w) = ''game''"
  "paused (example_game objs w) = False"
  "practice (example_game objs w) = False"
  "replayMode (example_game objs w) = False"
  "checkpoints (example_game objs w) = []"
  "accumulator (example_game objs w) = 0"
  "lastTime (example_game objs w) = 0"
  "heap (example_game objs w) = objs"
  "lobjects (level (example_game objs w)) = [0 ..< length objs]"
  "player (example_game objs w) = Player_reset"
  "player2 (example_game objs w) = Player_reset\<lparr>active := False\<rparr>"
  "activeParticles (example_game objs w) = 0"
  "particlesPool (example_game objs w) = fresh_pool"
  "speedMult (example_game objs w) = Number (Num 1)"
  "keys (example_game objs w) = {}"
  by (simp_all add: example_game_def new_Game_def Let_def)

subsection \<open>The particle pool\<close>

lemma Particle_init_fields:
  "activeParticles (Particle_init h x y t a g) = activeParticles g"
  "particlesPool (Particle_init h x y t a g) = particlesPool g"
  "accumulator (Particle_init h x y t a g) = accumulator g"
  "heap (Particle_init h x y t a g) = heap g"
  "player (Particle_init h x y t a g) = player g"
  "player2 (Particle_init h x y t a g) = player2 g"
  by (simp_all add: Particle_init_def Let_def)

lemma addParticle_pool: "particlesPool (addParticle h x y t n g) = particlesPool g"
  by (induction n arbitrary: g) (simp_all add: Particle_init_fields)

lemma addParticle_active:
  "activeParticles (addParticle h x y t n g) =
     (if length (particlesPool g) \<le> activeParticles g then activeParticles g
      else min (activeParticles g + n) (length (particlesPool g)))"
proof (induction n arbitrary: g)
  case 0
  then show ?case by simp
next
  case (Suc n)
  show ?case
  proof (cases "length (particlesPool g) \<le> activeParticles g")
    case True
    then show ?thesis by simp
  next
    case False
    then show ?thesis
      by (simp add: Suc.IH Particle_init_fields)
  qed
qed

text \<open>
  C7. A call of \<open>addParticle\<close> with \<open>n\<close> requests returns a game (it has no failing
  branch), leaves the slots of the pool as they are, and raises the number of active
  particles by \<open>n\<close>, but not beyond the capacity of the pool: the requests beyond the
  free slots are dropped. With a capacity of 1000 and no active particle, 1500 requests give
  exactly 1000 active particles.
\<close>

theorem C7_particle_pool_bound:
  "particlesPool (addParticle h x y t n g) = particlesPool g
   \<and> (activeParticles g \<le> length (particlesPool g) \<longrightarrow>
        activeParticles (addParticle h x y t n g)
          = min (activeParticles g + n) (length (particlesPool g)))
   \<and> (length (particlesPool g) = 1000 \<and> activeParticles g = 0 \<longrightarrow>
        activeParticles (addParticle h x y t 1500 g) = 1000)"
  by (simp add: addParticle_pool addParticle_active)

theorem C7_witness:
  "length (particlesPool (new_Game 800 600 0)) = 1000
   \<and> activeParticles (new_Game 800 600 0) = 0
   \<and> activeParticles (addParticle test_host (Num 90) (Num 375) ''death'' 1500 (new_Game 800 600 0))
       = 1000"
proof -
  have a: "length (particlesPool (new_Game 800 600 0)) = 1000"
    by (simp add: new_Game_def fresh_pool_def)
  have b: "activeParticles (new_Game 800 600 0) = 0"
    by (simp add: new_Game_def)
  from C7_particle_pool_bound [of test_host "Num 90" "Num 375" "''death''" 1500 "new_Game 800 600 0"] a b
  show ?thesis by simp
qed

subsection \<open>The accumulator\<close>





























subsection \<open>The one-shot flags\<close>































lemma set_used_nth: "a < length (heap g) \<Longrightarrow> heap (set_used a g) ! a = (heap g ! a)\<lparr>used := True\<rparr>"
  by (simp add: set_used_def)









lemma addParticle_changes:
  "\<exists>ps n r. addParticle h x y t k g = g\<lparr>particles := ps, activeParticles := n, randomCalls := r\<rparr>"
proof (induction k arbitrary: g)
  case 0
  have "g = g\<lparr>particles := particles g, activeParticles := activeParticles g,
               randomCalls := randomCalls g\<rparr>" by simp
  then show ?case by (metis addParticle.simps(1))
next
  case (Suc k)
  show ?case
  proof (cases "activeParticles g \<ge> length (particlesPool g)")
    case True
    have "g = g\<lparr>particles := particles g, activeParticles := activeParticles g,
               randomCalls := randomCalls g\<rparr>" by simp
    with True show ?thesis by (metis addParticle.simps(2))
  next
    case False
    let ?g1 = "Particle_init h x y t (particlesPool g ! activeParticles g)
                 (g\<lparr>activeParticles := activeParticles g + 1\<rparr>)"
    from Suc.IH[of ?g1] obtain ps n r
      where "addParticle h x y t k ?g1 = ?g1\<lparr>particles := ps, activeParticles := n, randomCalls := r\<rparr>"
      by blast
    with False show ?thesis
      by (auto simp: Particle_init_def Let_def)
  qed
qed






lemma setP_getP: "setP s (getP s g) g = g"
  by (cases s) (simp_all add: setP_def getP_def)

lemma getP_set_used: "getP s (set_used a g) = getP s g"
  by (cases s) (simp_all add: getP_def set_used_def)

lemma set_used_nth_type:
  "otype (heap (set_used a g) ! a) = otype (heap g ! a)"
  "effect (heap (set_used a g) ! a) = effect (heap g ! a)"
  by (cases "a < length (heap g)"; simp add: set_used_def list_update_beyond)+

text \<open>
  C5 (amended). Contact with an object whose flag is not yet set, and that is of a kind
  for which \<open>handleObject\<close> has no branch, or is a portal whose effect is none of the
  six it tests for, returns normally and changes one thing: the flag of that object.
\<close>

theorem C5_unknown_contact:
  assumes "\<not> used (heap g ! a)"
    and "otype (heap g ! a) \<notin> set handled_kinds
         \<or> (otype (heap g ! a) = ''portal'' \<and> effect (heap g ! a) \<notin> Some ` set portal_effects)"
  shows "handleObject h s a g = Inr (g\<lparr>heap := (heap g)[a := (heap g ! a)\<lparr>used := True\<rparr>]\<rparr>)"
proof -
  have e: "g\<lparr>heap := (heap g)[a := (heap g ! a)\<lparr>used := True\<rparr>]\<rparr> = set_used a g"
    by (simp add: set_used_def)
  from assms(2) show ?thesis
  proof
    assume "otype (heap g ! a) \<notin> set handled_kinds"
    then show ?thesis
      using assms(1) unfolding e
      by (simp add: handleObject_def Let_def set_used_nth_type handled_kinds_def)
  next
    assume "otype (heap g ! a) = ''portal'' \<and> effect (heap g ! a) \<notin> Some ` set portal_effects"
    then show ?thesis
      using assms(1) unfolding e
      by (auto simp: handleObject_def Let_def set_used_nth_type portal_effects_def setP_getP)
  qed
qed

lemma addParticle_player: "player (addParticle h x y t k g) = player g"
proof -
  obtain ps n r where
    "addParticle h x y t k g = g\<lparr>particles := ps, activeParticles := n, randomCalls := r\<rparr>"
    using addParticle_changes by blast
  then show ?thesis by simp
qed

lemma odd_game_fields:
  "heap odd_game = [new_obj 80 365 30 30 ''mystery'',
                    (new_obj 80 365 30 30 ''orb'')\<lparr>effect := Some ''blue''\<rparr>,
                    (new_obj 80 365 30 30 ''portal'')\<lparr>effect := Some ''warp''\<rparr>]"
  "player odd_game = Player_reset" "activeParticles odd_game = 0"
  "particlesPool odd_game = fresh_pool"
  by (simp_all add: odd_game_def example_game_fields)

text \<open>
  C5 as stated fails: the contact with an object of unknown kind changes the game (the
  flag), and the contact with an orb of unknown effect sets the vertical velocity to
  \<open>NaN\<close> and spawns 30 particles.
\<close>

theorem C5_counterexample:
  "handleObject test_host P1 0 odd_game \<noteq> Inr odd_game
   \<and> vy (player odd_game) = Num 0 \<and> activeParticles odd_game = 0
   \<and> \<not> isl (handleObject test_host P1 1 odd_game)
   \<and> vy (player (projr (handleObject test_host P1 1 odd_game))) = NaN
   \<and> activeParticles (projr (handleObject test_host P1 1 odd_game)) = 30"
proof -
  have a: "handleObject test_host P1 0 odd_game = Inr (set_used 0 odd_game)"
    by (simp add: handleObject_def Let_def odd_game_fields new_obj_def set_used_def)
  have "used (heap (set_used 0 odd_game) ! 0)" "\<not> used (heap odd_game ! 0)"
    by (simp_all add: set_used_def odd_game_fields new_obj_def)
  then have b: "set_used 0 odd_game \<noteq> odd_game" by auto
  have c: "vy (player odd_game) = Num 0" "activeParticles odd_game = 0"
    by (simp_all add: odd_game_fields Player_reset_def)
  have d: "handleObject test_host P1 1 odd_game
           = Inr (addParticle test_host (Num 80) (Num 365) ''orb'' 30
                   (setP P1 (Player_reset\<lparr>vy := NaN\<rparr>) (set_used 1 odd_game)))"
    by (simp add: handleObject_def Let_def odd_game_fields new_obj_def set_used_def getP_def
        Player_reset_def mk_mode_def jumps_def truthy_id_def)
  have e: "activeParticles (setP P1 (Player_reset\<lparr>vy := NaN\<rparr>) (set_used 1 odd_game)) = 0"
    "length (particlesPool (setP P1 (Player_reset\<lparr>vy := NaN\<rparr>) (set_used 1 odd_game))) = 1000"
    by (simp_all add: setP_def set_used_def odd_game_fields fresh_pool_def)
  from a b c d e show ?thesis
    by (simp add: addParticle_player addParticle_active setP_def)
qed

theorem C5_witness:
  "\<not> used (heap odd_game ! 0) \<and> otype (heap odd_game ! 0) \<notin> set handled_kinds
   \<and> handleObject test_host P1 0 odd_game
       = Inr (odd_game\<lparr>heap := (heap odd_game)[0 := (heap odd_game ! 0)\<lparr>used := True\<rparr>]\<rparr>)
   \<and> \<not> used (heap odd_game ! 2) \<and> otype (heap odd_game ! 2) = ''portal''
   \<and> effect (heap odd_game ! 2) \<notin> Some ` set portal_effects
   \<and> handleObject test_host P2 2 odd_game
       = Inr (odd_game\<lparr>heap := (heap odd_game)[2 := (heap odd_game ! 2)\<lparr>used := True\<rparr>]\<rparr>)"
proof -
  have a: "\<not> used (heap odd_game ! 0)" and b: "otype (heap odd_game ! 0) \<notin> set handled_kinds"
    and c: "\<not> used (heap odd_game ! 2)"
    and d: "otype (heap odd_game ! 2) = ''portal''
            \<and> effect (heap odd_game ! 2) \<notin> Some ` set portal_effects"
    by (simp_all add: odd_game_fields new_obj_def handled_kinds_def portal_effects_def)
  from C5_unknown_contact [OF a, of test_host P1] C5_unknown_contact [OF c, of test_host P2]
    a b c d
  show ?thesis by blast
qed
subsection \<open>The quadtree\<close>

text \<open>
  C1 fails on the script. The fifth object lies inside the bounds of the index and
  \<open>insert\<close> returns true for it, but \<open>some\<close> stops at the north-west child, so the
  object is stored there only. A query range on the east side of the line that overlaps
  the object does not reach that child and returns nothing; a range on the west side finds
  the object.
\<close>

theorem C1_straddling_object_missed:
  "fst (insert straddle_heap 4
          (insert_all straddle_heap [0, 1, 2, 3] (new_QuadTree (new_rect 0 0 100 100))))
   \<and> intersects (new_rect 0 0 100 100) (straddle_heap ! 4)
   \<and> intersects (new_rect 55 10 10 10) (straddle_heap ! 4)
   \<and> query straddle_heap (new_rect 55 10 10 10) straddle_tree [] = []
   \<and> query straddle_heap (new_rect 45 10 10 10) straddle_tree [] = [4]"
  by code_simp

lemma query_sound:
  "a \<in> set (query hp r t found) \<Longrightarrow>
   a \<in> set found \<or> (a \<in> set (stored t) \<and> intersects r (hp ! a))"
proof (induction t arbitrary: found)
  case (Leaf b c os)
  then show ?case by (auto split: if_splits)
next
  case (Node b c os nw ne sw se)
  show ?case
  proof (cases "intersects b r")
    case False
    with Node.prems show ?thesis by simp
  next
    case True
    let ?f1 = "found @ filter (\<lambda>a. intersects r (hp ! a)) os"
    let ?f2 = "query hp r nw ?f1"
    let ?f3 = "query hp r ne ?f2"
    let ?f4 = "query hp r sw ?f3"
    from Node.prems True have "a \<in> set (query hp r se ?f4)" by (simp add: Let_def)
    from Node.IH(4)[OF this] Node.IH(3)[of ?f3] Node.IH(2)[of ?f2] Node.IH(1)[of ?f1]
    show ?thesis by auto
  qed
qed

lemma zero_width_crossing:
  assumes "intersects r ob" and "rw r = Num 0"
  shows "rx ob < rx r \<and> rx r < rx ob + rw ob"
  using assms unfolding intersects_def
  by (cases "rx r"; cases "rx ob"; cases "rw ob") auto

lemma zero_height_crossing:
  assumes "intersects r ob" and "rh r = Num 0"
  shows "ry ob < ry r \<and> ry r < ry ob + rh ob"
  using assms unfolding intersects_def
  by (cases "ry r"; cases "ry ob"; cases "rh ob") auto

text \<open>
  C9 (amended). A query never fails. For a range of zero width or zero height it returns
  only stored objects that the range crosses strictly inside: for zero width the \<open>x\<close>
  of the range lies strictly between the left and the right edge of the object, for zero
  height its \<open>y\<close> lies strictly between the top and the bottom edge. The result is empty
  when the range crosses no stored object in that way.
\<close>

theorem C9_degenerate_query:
  assumes "rw r = Num 0 \<or> rh r = Num 0"
  shows "(\<forall>a \<in> set (query hp r t []).
            a \<in> set (stored t)
            \<and> (rw r = Num 0 \<longrightarrow> rx (hp ! a) < rx r \<and> rx r < rx (hp ! a) + rw (hp ! a))
            \<and> (rh r = Num 0 \<longrightarrow> ry (hp ! a) < ry r \<and> ry r < ry (hp ! a) + rh (hp ! a)))
       \<and> ((\<forall>a \<in> set (stored t). \<not> intersects r (hp ! a)) \<longrightarrow> query hp r t [] = [])"
proof -
  have "a \<in> set (stored t) \<and> intersects r (hp ! a)" if "a \<in> set (query hp r t [])" for a
    using query_sound[OF that] by simp
  then show ?thesis
    using zero_width_crossing zero_height_crossing
    by (metis all_not_in_conv set_empty)
qed

text \<open>
  C9 as stated fails: a point, and a vertical segment, inside the only object of the
  index are zero-area ranges for which the query returns that object.
\<close>

theorem C9_counterexample:
  "query single_heap (new_rect 5 5 0 0) single_tree [] = [0]
   \<and> query single_heap (new_rect 5 2 0 3) single_tree [] = [0]"
  by code_simp

theorem C9_witness:
  "rw (new_rect 5 5 0 0) = Num 0 \<and> 0 \<in> set (query single_heap (new_rect 5 5 0 0) single_tree [])
   \<and> rx (single_heap ! 0) < rx (new_rect 5 5 0 0)
   \<and> rx (new_rect 5 5 0 0) < rx (single_heap ! 0) + rw (single_heap ! 0)
   \<and> rw (new_rect 10 5 0 0) = Num 0 \<and> stored single_tree = [0]
   \<and> \<not> intersects (new_rect 10 5 0 0) (single_heap ! 0)
   \<and> query single_heap (new_rect 10 5 0 0) single_tree [] = []"
proof -
  have z: "rw (new_rect 5 5 0 0) = Num 0" "rw (new_rect 10 5 0 0) = Num 0"
    by (simp_all add: new_rect_def)
  have m: "0 \<in> set (query single_heap (new_rect 5 5 0 0) single_tree [])" by code_simp
  have st: "stored single_tree = [0]" by code_simp
  have n: "\<not> intersects (new_rect 10 5 0 0) (single_heap ! 0)" by code_simp
  from st n have e: "\<forall>a \<in> set (stored single_tree). \<not> intersects (new_rect 10 5 0 0) (single_heap ! a)"
    by simp
  from C9_degenerate_query [of "new_rect 5 5 0 0" single_heap single_tree] z(1) m
  have "rx (single_heap ! 0) < rx (new_rect 5 5 0 0)
     \<and> rx (new_rect 5 5 0 0) < rx (single_heap ! 0) + rw (single_heap ! 0)" by blast
  moreover from C9_degenerate_query [of "new_rect 10 5 0 0" single_heap single_tree] z(2) e
  have "query single_heap (new_rect 10 5 0 0) single_tree [] = []" by blast
  ultimately show ?thesis using z m st n by blast
qed

subsection \<open>The collision passes\<close>

text \<open>
  C4 fails on the script. The tests of the two passes use the box with its \<open>x\<close> (its
  \<open>y\<close>) replaced by the centre of the player, not by the corner of its box. A player
  whose box overlaps the lower right corner of a block, with its centre to the right of and
  below the block, passes both tests untouched. With the centre to the right of but not
  below the block, the Y pass fires and puts the centre on the lower edge of the block, so
  the upper half of the box still overlaps the block.
\<close>

theorem C4_penetration:
  "collide (getBBox rising_player) ceiling_block
   \<and> collideY [ceiling_block] (getBBox rising_player) [0]
        (collideX [ceiling_block] (getBBox rising_player) [0] rising_player) = rising_player
   \<and> collide (getBBox rising_player2) ceiling_block
   \<and> collideY [ceiling_block] (getBBox rising_player2) [0]
        (collideX [ceiling_block] (getBBox rising_player2) [0] rising_player2)
      = rising_player2\<lparr>py := Num 90, vy := Num 0\<rparr>
   \<and> collide (getBBox (rising_player2\<lparr>py := Num 90, vy := Num 0\<rparr>)) ceiling_block"
  by code_simp

subsection \<open>Replay\<close>

text \<open>
  C6 fails on the script. In the live run the input goes down between the two frames,
  while the player is in the air: \<open>handleInput\<close> calls \<open>jump()\<close>, which does nothing
  off the ground, and records \<open>jump\<close> at \<open>time * 240 = 96/25\<close>. The replayed run
  reissues the entry at the end of the first frame, when its counter is \<open>96/25\<close> too, but
  as \<open>jump(true)\<close>, which sets the vertical velocity whatever the ground state. After the
  first frame the two runs agree on the pose and differ on the vertical velocity; after
  the second frame the \<open>y\<close> of the pose differs.
\<close>

theorem C6_replay_diverges:
  "run_summary live_run1 =
     (False, (Num (32109189 / 320000), Num (37589 / 100), Num (10309 / 48000),
              String ''cube'', False, False),
      Num (89 / 100), Num (96 / 25), 0, [])
   \<and> run_summary live_run2 =
     (False, (Num (32109189 / 320000), Num (37589 / 100), Num (10309 / 48000),
              String ''cube'', False, False),
      Num (89 / 100), Num (96 / 25), 0, [(Num (96 / 25), ''jump'')])
   \<and> run_summary replay_run1 =
     (False, (Num (32109189 / 320000), Num (37589 / 100), Num (10309 / 48000),
              String ''cube'', False, False),
      Num (- 56 / 5), Num (96 / 25), 1, [(Num (96 / 25), ''jump'')])
   \<and> run_summary live_run3 =
     (False, (Num (106265443 / 960000), Num (9064169 / 24000), Num (10309 / 30000),
              String ''cube'', False, False),
      Num (89 / 50), Num (192 / 25), 0, [(Num (96 / 25), ''jump'')])
   \<and> run_summary replay_run3 =
     (False, (Num (106265443 / 960000), Num (5483 / 15), Num (10309 / 30000),
              String ''cube'', False, False),
      Num (- 1031 / 100), Num (192 / 25), 1, [(Num (96 / 25), ''jump'')])"
  by code_simp

subsection \<open>The dispatch of the player and the triggers\<close>









subsection \<open>Group triggers and the rebuilt index\<close>

lemma query_set: "set (query hp r t found) = set found \<union> hits hp r t"
  by (induction t arbitrary: found) (auto simp: Let_def)

lemma insert_miss: "\<not> intersects (bounds t) (hp ! a) \<Longrightarrow> insert hp a t = (False, t)"
  by (cases t) simp_all

lemma subdivide_eq:
  "subdivide b c os =
     Node b c os (new_QuadTree (quadrant False False b)) (new_QuadTree (quadrant True False b))
       (new_QuadTree (quadrant False True b)) (new_QuadTree (quadrant True True b))"
  by (simp add: subdivide_def quadrant_def Let_def)

lemma insert_fresh:
  "insert hp a (new_QuadTree q) =
     (if intersects q (hp ! a) then (True, Leaf q 4 [a]) else (False, new_QuadTree q))"
  by (simp add: new_QuadTree_def)

text \<open>The call on a full leaf, computed: the object goes to the first quadrant it intersects.\<close>

lemma insert_full_leaf:
  assumes "intersects b (hp ! a)" and "\<not> length os < c"
  shows "insert hp a (Leaf b c os) =
     (if intersects (quadrant False False b) (hp ! a) then
        (True, Node b c os (Leaf (quadrant False False b) 4 [a])
                 (new_QuadTree (quadrant True False b)) (new_QuadTree (quadrant False True b))
                 (new_QuadTree (quadrant True True b)))
      else if intersects (quadrant True False b) (hp ! a) then
        (True, Node b c os (new_QuadTree (quadrant False False b))
                 (Leaf (quadrant True False b) 4 [a]) (new_QuadTree (quadrant False True b))
                 (new_QuadTree (quadrant True True b)))
      else if intersects (quadrant False True b) (hp ! a) then
        (True, Node b c os (new_QuadTree (quadrant False False b))
                 (new_QuadTree (quadrant True False b)) (Leaf (quadrant False True b) 4 [a])
                 (new_QuadTree (quadrant True True b)))
      else if intersects (quadrant True True b) (hp ! a) then
        (True, Node b c os (new_QuadTree (quadrant False False b))
                 (new_QuadTree (quadrant True False b)) (new_QuadTree (quadrant False True b))
                 (Leaf (quadrant True True b) 4 [a]))
      else (False, subdivide b c os))"
  using assms by (simp add: subdivide_eq insert_fresh Let_def)

lemma insert_bounds: "bounds (snd (insert hp a t)) = bounds t"
proof (induction t)
  case (Leaf b c os)
  show ?case
  proof (cases "intersects b (hp ! a) \<and> \<not> length os < c")
    case True
    then show ?thesis by (simp add: insert_full_leaf subdivide_eq del: insert.simps)
  next
    case False
    then show ?thesis by auto
  qed
next
  case (Node b c os nw ne sw se)
  then show ?case by (simp add: Let_def split: prod.splits)
qed

lemma insert_well_split: "well_split t \<Longrightarrow> well_split (snd (insert hp a t))"
proof (induction t)
  case (Leaf b c os)
  show ?case
  proof (cases "intersects b (hp ! a) \<and> \<not> length os < c")
    case True
    then show ?thesis
      by (simp add: insert_full_leaf subdivide_eq new_QuadTree_def del: insert.simps)
  next
    case False
    then show ?thesis by auto
  qed
next
  case (Node b c os nw ne sw se)
  then show ?case
    using insert_bounds[of hp a nw] insert_bounds[of hp a ne] insert_bounds[of hp a sw]
      insert_bounds[of hp a se]
    by (auto simp: Let_def split: prod.splits)
qed

lemma insert_hits_mono: "hits hp r t \<subseteq> hits hp r (snd (insert hp a t))"
proof (induction t)
  case (Leaf b c os)
  show ?case
  proof (cases "intersects b (hp ! a) \<and> \<not> length os < c")
    case True
    then show ?thesis
      by (auto simp: insert_full_leaf subdivide_eq new_QuadTree_def simp del: insert.simps)
  next
    case False
    then show ?thesis by auto
  qed
next
  case (Node b c os nw ne sw se)
  then show ?case
    by (auto simp: Let_def split: prod.splits)
qed

text \<open>
  A positive rectangle that intersects a rectangle intersects one of its quadrants: on each
  axis, an interval of positive length that meets an interval meets one of its halves.
\<close>

lemma quadrant_meets:
  assumes "intersects b ob" and "positive ob"
  shows "intersects (quadrant False False b) ob \<or> intersects (quadrant True False b) ob
       \<or> intersects (quadrant False True b) ob \<or> intersects (quadrant True True b) ob"
proof -
  from assms obtain bx bw by' bh ox ow oy oh where
    v: "rx b = Num bx" "rw b = Num bw" "ry b = Num by'" "rh b = Num bh"
       "rx ob = Num ox" "rw ob = Num ow" "ry ob = Num oy" "rh ob = Num oh"
    unfolding intersects_def positive_def
    by (cases "rx b"; cases "rw b"; cases "ry b"; cases "rh b";
        cases "rx ob"; cases "rw ob"; cases "ry ob"; cases "rh ob") auto
  from assms have i: "bx < ox + ow" "bx + bw > ox" "by' < oy + oh" "by' + bh > oy"
    and p: "0 < ow" "0 < oh"
    by (simp_all add: intersects_def positive_def v)
  have x: "(bx < ox + ow \<and> bx + bw / 2 > ox) \<or> (bx + bw / 2 < ox + ow \<and> bx + bw / 2 + bw / 2 > ox)"
    using i(1,2) p(1) by (cases "bx + bw / 2 > ox") auto
  have y: "(by' < oy + oh \<and> by' + bh / 2 > oy) \<or> (by' + bh / 2 < oy + oh \<and> by' + bh / 2 + bh / 2 > oy)"
    using i(3,4) p(2) by (cases "by' + bh / 2 > oy") auto
  from x y show ?thesis
    by (auto simp: intersects_def quadrant_def v)
qed

lemma intersects_self:
  assumes "intersects b r" and "positive r"
  shows "intersects r r"
  using assms unfolding intersects_def positive_def
  by (cases "rx r"; cases "rw r"; cases "ry r"; cases "rh r"; cases "rx b"; cases "rw b";
      cases "ry b"; cases "rh b") auto

lemma insert_ok:
  assumes "well_split t" and "intersects (bounds t) (hp ! a)" and "positive (hp ! a)"
  shows "fst (insert hp a t) \<and> a \<in> hits hp (hp ! a) (snd (insert hp a t))"
  using assms
proof (induction t)
  case (Leaf b c os)
  from Leaf.prems have ib: "intersects b (hp ! a)" by simp
  have self: "intersects (hp ! a) (hp ! a)" using ib Leaf.prems(3) by (rule intersects_self)
  show ?case
  proof (cases "length os < c")
    case True
    with ib self show ?thesis by simp
  next
    case False
    from quadrant_meets[OF ib Leaf.prems(3)] ib self False show ?thesis
      by (auto simp: insert_full_leaf new_QuadTree_def simp del: insert.simps)
  qed
next
  case (Node b c os nw ne sw se)
  from Node.prems have ib: "intersects b (hp ! a)" by simp
  from Node.prems(1) have bs: "bounds nw = quadrant False False b" "bounds ne = quadrant True False b"
      "bounds sw = quadrant False True b" "bounds se = quadrant True True b"
    and ws: "well_split nw" "well_split ne" "well_split sw" "well_split se"
    by simp_all
  note meets = quadrant_meets[OF ib Node.prems(3)]
  obtain r1 nw' where n1: "insert hp a nw = (r1, nw')" by (cases "insert hp a nw")
  obtain r2 ne' where n2: "insert hp a ne = (r2, ne')" by (cases "insert hp a ne")
  obtain r3 sw' where n3: "insert hp a sw = (r3, sw')" by (cases "insert hp a sw")
  obtain r4 se' where n4: "insert hp a se = (r4, se')" by (cases "insert hp a se")
  have k1: "intersects (quadrant False False b) (hp ! a) \<Longrightarrow> r1 \<and> a \<in> hits hp (hp ! a) nw'"
    using Node.IH(1)[OF ws(1) _ Node.prems(3)] bs(1) n1 by simp
  have k2: "intersects (quadrant True False b) (hp ! a) \<Longrightarrow> r2 \<and> a \<in> hits hp (hp ! a) ne'"
    using Node.IH(2)[OF ws(2) _ Node.prems(3)] bs(2) n2 by simp
  have k3: "intersects (quadrant False True b) (hp ! a) \<Longrightarrow> r3 \<and> a \<in> hits hp (hp ! a) sw'"
    using Node.IH(3)[OF ws(3) _ Node.prems(3)] bs(3) n3 by simp
  have k4: "intersects (quadrant True True b) (hp ! a) \<Longrightarrow> r4 \<and> a \<in> hits hp (hp ! a) se'"
    using Node.IH(4)[OF ws(4) _ Node.prems(3)] bs(4) n4 by simp
  have m1: "\<not> intersects (quadrant False False b) (hp ! a) \<Longrightarrow> \<not> r1"
    using insert_miss[of nw hp a] bs(1) n1 by simp
  have m2: "\<not> intersects (quadrant True False b) (hp ! a) \<Longrightarrow> \<not> r2"
    using insert_miss[of ne hp a] bs(2) n2 by simp
  have m3: "\<not> intersects (quadrant False True b) (hp ! a) \<Longrightarrow> \<not> r3"
    using insert_miss[of sw hp a] bs(3) n3 by simp
  show ?case
    using ib meets n1 n2 n3 n4 k1 k2 k3 k4 m1 m2 m3
    by (cases r1; cases r2; cases r3) (auto simp: Let_def)
qed

lemma insert_all_Cons: "insert_all hp (b # bs) t = insert_all hp bs (snd (insert hp b t))"
  by (simp add: insert_all_def)

lemma insert_all_Nil: "insert_all hp [] t = t"
  by (simp add: insert_all_def)

lemma insert_all_hits_mono: "hits hp r t \<subseteq> hits hp r (insert_all hp bs t)"
proof (induction bs arbitrary: t)
  case Nil
  then show ?case by (simp add: insert_all_Nil)
next
  case (Cons b bs)
  from insert_hits_mono[of hp r t b] Cons.IH[of "snd (insert hp b t)"] show ?case
    by (auto simp: insert_all_Cons)
qed

lemma insert_all_ok:
  assumes "well_split t" and "a \<in> set bs" and "intersects (bounds t) (hp ! a)"
    and "positive (hp ! a)"
  shows "a \<in> hits hp (hp ! a) (insert_all hp bs t)"
  using assms
proof (induction bs arbitrary: t)
  case Nil
  then show ?case by simp
next
  case (Cons b bs)
  let ?t1 = "snd (insert hp b t)"
  have w1: "well_split ?t1" using Cons.prems(1) by (rule insert_well_split)
  have b1: "bounds ?t1 = bounds t" by (rule insert_bounds)
  show ?case
  proof (cases "a = b")
    case True
    from insert_ok[OF Cons.prems(1,3,4)] True have "a \<in> hits hp (hp ! a) ?t1" by simp
    with insert_all_hits_mono[of hp "hp ! a" ?t1 bs] show ?thesis
      by (auto simp: insert_all_Cons)
  next
    case False
    with Cons.prems(2) have "a \<in> set bs" by simp
    from Cons.IH[OF w1 this] Cons.prems(3,4) b1 show ?thesis
      by (simp add: insert_all_Cons)
  qed
qed

lemma rebuild_finds:
  assumes "a \<in> set (lobjects lv)"
    and "intersects \<lparr>rx = Num 0, ry = Num 0, rw = width lv, rh = height lv\<rparr> (hp ! a)"
    and "positive (hp ! a)"
  shows "a \<in> set (query hp (hp ! a) (rebuild hp lv) [])"
proof -
  have "a \<in> hits hp (hp ! a) (rebuild hp lv)"
    unfolding rebuild_def
    by (rule insert_all_ok) (simp_all add: new_QuadTree_def assms)
  then show ?thesis by (simp add: query_set)
qed

lemma apply_each_Cons: "apply_each f (a # as) hp = apply_each f as (hp[a := f (hp ! a)])"
  by (simp add: apply_each_def)

lemma apply_each_nth:
  assumes "distinct as" and "b < length hp"
  shows "apply_each f as hp ! b = (if b \<in> set as then f (hp ! b) else hp ! b)"
  using assms
proof (induction as arbitrary: hp)
  case Nil
  then show ?case by (simp add: apply_each_def)
next
  case (Cons a as)
  let ?hp1 = "hp[a := f (hp ! a)]"
  from Cons.prems have d: "distinct as" "a \<notin> set as" and l: "b < length ?hp1" by simp_all
  from Cons.IH[OF d(1) l]
  have "apply_each f as ?hp1 ! b = (if b \<in> set as then f (?hp1 ! b) else ?hp1 ! b)" .
  with d(2) Cons.prems(2) show ?case
    by (cases "a = b") (auto simp: apply_each_Cons)
qed

lemma hits_sound: "a \<in> hits hp r t \<Longrightarrow> intersects r (hp ! a)"
  by (induction t) (auto split: if_splits)

lemma handleTrigger_move:
  assumes "\<not> used (heap g ! a)" and "effect (heap g ! a) = Some ''move''"
    and "a < length (heap g)"
  shows "handleTrigger a g =
     (let hp0 = heap (set_used a g);
          hp = apply_each (\<lambda>b. b\<lparr>rx := rx b + dx (heap g ! a), ry := ry b + dy (heap g ! a)\<rparr>)
                 (filter (in_group hp0 (targetGroup (heap g ! a))) (lobjects (level g)))
                 hp0
      in (set_used a g)\<lparr>heap := hp, quadTree := rebuild hp (level g)\<rparr>)"
  using assms
  by (simp add: handleTrigger_def Let_def set_used_def)

lemma set_used_group:
  "b < length (heap g) \<Longrightarrow> group (heap (set_used a g) ! b) = group (heap g ! b)"
  by (cases "a < length (heap g)"; cases "a = b") (simp_all add: set_used_def)

lemma set_used_obj:
  assumes "a < length (heap g)" and "b < length (heap g)" and "\<not> used (heap g ! a)"
  shows "heap (set_used a g) ! b = (heap g ! b)\<lparr>used := (used (heap g ! b) \<or> b = a)\<rparr>"
  using assms by (cases "a = b") (simp_all add: set_used_def)


text \<open>
  C2 (amended). \<open>handleTrigger\<close> on a move trigger whose flag is not set, in a level
  whose object list has no duplicates, shifts every level object whose group is the
  target group by \<open>(dx, dy)\<close> and changes nothing else of it; an object of another
  group keeps its position, colour and alpha (the trigger itself gets its flag set). In the
  rebuilt index, a query over the new bounds of a level object returns the object if those
  bounds are positive and intersect the bounds of the index, and a query over the old
  bounds of an object does not return it if its old and new bounds do not intersect.
\<close>

theorem C2_move_trigger:
  assumes "a < length (heap g)" and "\<not> used (heap g ! a)"
    and "effect (heap g ! a) = Some ''move''"
    and "distinct (lobjects (level g))"
    and "g' = handleTrigger a g"
    and "b < length (heap g)"
  shows "(b \<in> set (lobjects (level g)) \<and> group (heap g ! b) = targetGroup (heap g ! a) \<longrightarrow>
            heap g' ! b = (heap g ! b)\<lparr>rx := rx (heap g ! b) + dx (heap g ! a),
                                        ry := ry (heap g ! b) + dy (heap g ! a),
                                        used := (used (heap g ! b) \<or> b = a)\<rparr>)
       \<and> (group (heap g ! b) \<noteq> targetGroup (heap g ! a) \<longrightarrow>
            heap g' ! b = (heap g ! b)\<lparr>used := (used (heap g ! b) \<or> b = a)\<rparr>)
       \<and> (b \<in> set (lobjects (level g))
            \<and> intersects \<lparr>rx = Num 0, ry = Num 0, rw = width (level g), rh = height (level g)\<rparr>
                 (heap g' ! b)
            \<and> positive (heap g' ! b) \<longrightarrow>
            b \<in> set (query (heap g') (heap g' ! b) (quadTree g') []))
       \<and> (\<not> intersects (heap g ! b) (heap g' ! b) \<longrightarrow>
            b \<notin> set (query (heap g') (heap g ! b) (quadTree g') []))"
proof -
  let ?hz = "heap (set_used a g)"
  let ?tg = "targetGroup (heap g ! a)"
  let ?mv = "\<lambda>b. b\<lparr>rx := rx b + dx (heap g ! a), ry := ry b + dy (heap g ! a)\<rparr>"
  let ?ts = "filter (in_group ?hz ?tg) (lobjects (level g))"
  let ?hp = "apply_each ?mv ?ts ?hz"
  have g': "g' = (set_used a g)\<lparr>heap := ?hp, quadTree := rebuild ?hp (level g)\<rparr>"
    using handleTrigger_move[OF assms(2,3,1)] assms(5) by (simp add: Let_def)
  have hp: "heap g' = ?hp" and qt: "quadTree g' = rebuild ?hp (level g)"
    by (simp_all add: g')
  have l0: "b < length ?hz" using assms(6) by (simp add: set_used_def)
  have d: "distinct ?ts" using assms(4) by simp
  have ob0: "?hz ! b = (heap g ! b)\<lparr>used := (used (heap g ! b) \<or> b = a)\<rparr>"
    using assms(1,6,2) by (rule set_used_obj)
  have grp: "in_group ?hz ?tg b \<longleftrightarrow> group (heap g ! b) = ?tg"
    using set_used_group[OF assms(6)] by (simp add: in_group_def)
  have nth: "?hp ! b = (if b \<in> set ?ts then ?mv (?hz ! b) else ?hz ! b)"
    using d l0 by (rule apply_each_nth)
  have c1: "b \<in> set (lobjects (level g)) \<and> group (heap g ! b) = ?tg \<longrightarrow>
            heap g' ! b = (heap g ! b)\<lparr>rx := rx (heap g ! b) + dx (heap g ! a),
                                        ry := ry (heap g ! b) + dy (heap g ! a),
                                        used := (used (heap g ! b) \<or> b = a)\<rparr>"
    by (simp add: hp nth grp ob0)
  have c2: "group (heap g ! b) \<noteq> ?tg \<longrightarrow>
            heap g' ! b = (heap g ! b)\<lparr>used := (used (heap g ! b) \<or> b = a)\<rparr>"
    by (simp add: hp nth grp ob0)
  have c3: "b \<in> set (lobjects (level g))
            \<and> intersects \<lparr>rx = Num 0, ry = Num 0, rw = width (level g), rh = height (level g)\<rparr>
                 (heap g' ! b)
            \<and> positive (heap g' ! b) \<longrightarrow>
            b \<in> set (query (heap g') (heap g' ! b) (quadTree g') [])"
    unfolding hp qt using rebuild_finds[of b "level g" ?hp] by blast
  have c4: "\<not> intersects (heap g ! b) (heap g' ! b) \<longrightarrow>
            b \<notin> set (query (heap g') (heap g ! b) (quadTree g') [])"
    by (auto simp: query_set dest: hits_sound)
  from c1 c2 c3 c4 show ?thesis by blast
qed

text \<open>
  C2 as stated fails. The last ground block of the demo level is moved from 17970 to 18020,
  beyond the width 18000 of the index; \<open>insert\<close> rejects it and the query over its new
  bounds returns nothing. And in a frame in which the player overlaps a move trigger, the
  player's own dispatch sets the flag of the trigger first, so \<open>updateTriggers\<close> does
  not apply it: the block of the target group is where it was.
\<close>

theorem C2_counterexample:
  "rx (heap (handleTrigger 1 edge_game) ! 0) = Num 18020
   \<and> width (level (handleTrigger 1 edge_game)) = Num 18000
   \<and> query (heap (handleTrigger 1 edge_game)) (heap (handleTrigger 1 edge_game) ! 0)
         (quadTree (handleTrigger 1 edge_game)) [] = []
   \<and> collide (getBBox (player trigger_game)) (heap trigger_game ! 0)
   \<and> \<not> isl (update test_host (1 / 60) trigger_game)
   \<and> used (heap (projr (update test_host (1 / 60) trigger_game)) ! 0)
   \<and> group (heap trigger_game ! 1) = targetGroup (heap trigger_game ! 0)
   \<and> rx (heap (projr (update test_host (1 / 60) trigger_game)) ! 1) = rx (heap trigger_game ! 1)"
  by code_simp

theorem C2_witness:
  "0 < length (heap trigger_game) \<and> \<not> used (heap trigger_game ! 0)
   \<and> effect (heap trigger_game ! 0) = Some ''move''
   \<and> dx (heap trigger_game ! 0) = Num 50 \<and> dy (heap trigger_game ! 0) = Num 0
   \<and> distinct (lobjects (level trigger_game))
   \<and> 1 \<in> set (lobjects (level trigger_game))
   \<and> group (heap trigger_game ! 1) = targetGroup (heap trigger_game ! 0)
   \<and> group (heap trigger_game ! 0) \<noteq> targetGroup (heap trigger_game ! 0)
   \<and> rx (heap trigger_game ! 1) = Num 300
   \<and> rx (heap (handleTrigger 0 trigger_game) ! 1) = Num 350
   \<and> ry (heap (handleTrigger 0 trigger_game) ! 1) = ry (heap trigger_game ! 1)
   \<and> heap (handleTrigger 0 trigger_game) ! 0 = (heap trigger_game ! 0)\<lparr>used := True\<rparr>
   \<and> 1 \<in> set (query (heap (handleTrigger 0 trigger_game)) (heap (handleTrigger 0 trigger_game) ! 1)
                 (quadTree (handleTrigger 0 trigger_game)) [])
   \<and> 1 \<notin> set (query (heap (handleTrigger 0 trigger_game)) (heap trigger_game ! 1)
                 (quadTree (handleTrigger 0 trigger_game)) [])"
proof -
  let ?g' = "handleTrigger 0 trigger_game"
  have hp: "heap trigger_game = [move_trigger 80 365, (new_obj 300 405 30 15 ''block'')\<lparr>group := Some 1\<rparr>]"
    and lo: "lobjects (level trigger_game) = [0, 1]"
    by (simp_all add: trigger_game_def example_game_fields)
  have lv: "width (level trigger_game) = Num 3000" "height (level trigger_game) = Num 420"
    by (simp_all add: trigger_game_def example_game_def Let_def)
  have h1: "0 < length (heap trigger_game)" and h1': "1 < length (heap trigger_game)"
    and h2: "\<not> used (heap trigger_game ! 0)"
    and h3: "effect (heap trigger_game ! 0) = Some ''move''"
    and h4: "distinct (lobjects (level trigger_game))"
    and m: "1 \<in> set (lobjects (level trigger_game))"
    and gr: "group (heap trigger_game ! 1) = targetGroup (heap trigger_game ! 0)"
    and gn: "group (heap trigger_game ! 0) \<noteq> targetGroup (heap trigger_game ! 0)"
    and d: "dx (heap trigger_game ! 0) = Num 50" "dy (heap trigger_game ! 0) = Num 0"
    and o1: "rx (heap trigger_game ! 1) = Num 300" "ry (heap trigger_game ! 1) = Num 405"
      "rw (heap trigger_game ! 1) = Num 30" "rh (heap trigger_game ! 1) = Num 15"
      "\<not> used (heap trigger_game ! 1)"
    by (simp_all add: hp lo move_trigger_def new_obj_def)
  note t1 = C2_move_trigger [OF h1 h2 h3 h4 refl h1']
  note t0 = C2_move_trigger [OF h1 h2 h3 h4 refl h1]
  from t1 m gr have e1: "heap ?g' ! 1 = (heap trigger_game ! 1)\<lparr>rx := rx (heap trigger_game ! 1) + dx (heap trigger_game ! 0),
        ry := ry (heap trigger_game ! 1) + dy (heap trigger_game ! 0),
        used := (used (heap trigger_game ! 1) \<or> (1::nat) = 0)\<rparr>"
    by blast
  then have r1: "rx (heap ?g' ! 1) = Num 350" "ry (heap ?g' ! 1) = Num 405"
    "rw (heap ?g' ! 1) = Num 30" "rh (heap ?g' ! 1) = Num 15"
    using d o1 by simp_all
  from t0 gn h2 have e0: "heap ?g' ! 0 = (heap trigger_game ! 0)\<lparr>used := True\<rparr>"
    by simp
  have i: "intersects \<lparr>rx = Num 0, ry = Num 0, rw = width (level trigger_game),
                        rh = height (level trigger_game)\<rparr> (heap ?g' ! 1)"
    and p: "positive (heap ?g' ! 1)"
    and n: "\<not> intersects (heap trigger_game ! 1) (heap ?g' ! 1)"
    using r1 o1 lv by (simp_all add: intersects_def positive_def)
  from t1 m i p have q1: "1 \<in> set (query (heap ?g') (heap ?g' ! 1) (quadTree ?g') [])"
    by blast
  from t1 n have q2: "1 \<notin> set (query (heap ?g') (heap trigger_game ! 1) (quadTree ?g') [])"
    by blast
  from h1 h2 h3 d h4 m gr gn o1 r1 e0 q1 q2 show ?thesis by simp
qed

end
